theory Spec2Isabelle
  imports Complex_Main "HOL-Library.Product_Lexorder"
begin

section \<open>JSON values and documents\<close>

text \<open>
  The routes of the recruitment API move JSON-shaped Python values between the
  language-model services and the MongoDB collections. A value is one of the JSON kinds,
  or a timestamp (\<open>datetime.utcnow()\<close>). Numbers are exact rationals: the rounding of
  Python floats is outside the model, every arithmetic expression below is the one of the
  source, evaluated exactly. A Python \<open>dict\<close> with string keys is a map; inside a JSON
  value it is the list of its items (keys pairwise different), read with \<open>map_of\<close>.
\<close>

datatype jv =
    JNull
  | JBool bool
  | JNum rat
  | JStr string
  | JList "jv list"
  | JObj "(string \<times> jv) list"
  | JDate nat

type_synonym doc = "string \<rightharpoonup> jv"

text \<open>The exceptions that the modelled code can raise, and the HTTP error a route answers with.\<close>

datatype exn =
    TypeError
  | KeyError string
  | AttributeError
  | ValidationError
  | HTTPException nat string
  | LibraryError string

datatype http_error = HTTPError nat string

text \<open>Python truthiness of a JSON value (\<open>if x:\<close>, \<open>not x\<close>).\<close>

fun truthy :: "jv \<Rightarrow> bool" where
  "truthy JNull = False"
| "truthy (JBool b) = b"
| "truthy (JNum x) = (x \<noteq> 0)"
| "truthy (JStr s) = (s \<noteq> [])"
| "truthy (JList vs) = (vs \<noteq> [])"
| "truthy (JObj kvs) = (kvs \<noteq> [])"
| "truthy (JDate t) = True"

text \<open>\<open>d.get(k, default)\<close>.\<close>

definition dict_get :: "doc \<Rightarrow> string \<Rightarrow> jv \<Rightarrow> jv" where
  "dict_get d k dflt = (case d k of None \<Rightarrow> dflt | Some v \<Rightarrow> v)"

section \<open>The document store\<close>

text \<open>
  A collection is the list of its documents in insertion order. A filter is a conjunction
  of conditions on fields: equality, \<open>$gte\<close> against a number, \<open>$in\<close>. MongoDB matches
  a condition against an array-valued field when the array itself or one of its elements
  matches, a \<open>null\<close> query value also matches a missing field, and a numeric \<open>$gte\<close>
  only matches numbers. The store-generated \<open>_id\<close> field is left out of the model.
\<close>

datatype cond = Eq jv | Gte rat | In "jv list"

type_synonym query = "(string \<times> cond) list"

fun eq_match :: "jv option \<Rightarrow> jv \<Rightarrow> bool" where
  "eq_match None q = (q = JNull)"
| "eq_match (Some (JList vs)) q = (JList vs = q \<or> list_ex (\<lambda>v. v = q) vs)"
| "eq_match (Some v) q = (v = q)"

fun is_num_gte :: "rat \<Rightarrow> jv \<Rightarrow> bool" where
  "is_num_gte m (JNum x) = (m \<le> x)"
| "is_num_gte m _ = False"

fun gte_match :: "jv option \<Rightarrow> rat \<Rightarrow> bool" where
  "gte_match (Some (JNum x)) m = (m \<le> x)"
| "gte_match (Some (JList vs)) m = list_ex (is_num_gte m) vs"
| "gte_match _ m = False"

fun cond_match :: "jv option \<Rightarrow> cond \<Rightarrow> bool" where
  "cond_match fv (Eq q) = eq_match fv q"
| "cond_match fv (Gte m) = gte_match fv m"
| "cond_match fv (In qs) = list_ex (eq_match fv) qs"

definition matches :: "query \<Rightarrow> doc \<Rightarrow> bool" where
  "matches q d = list_all (\<lambda>(k, c). cond_match (d k) c) q"

definition find_docs :: "query \<Rightarrow> doc list \<Rightarrow> doc list" where
  "find_docs q coll = filter (matches q) coll"

definition find_one :: "query \<Rightarrow> doc list \<Rightarrow> doc option" where
  "find_one q coll = List.find (matches q) coll"

definition insert_one :: "doc \<Rightarrow> doc list \<Rightarrow> doc list" where
  "insert_one d coll = coll @ [d]"

text \<open>
  \<open>update_one(filter, {"$set": fields}, upsert=True)\<close>: the first matching document gets
  the fields set; when none matches, a document made of the filter's equality fields and
  the set fields is inserted.
\<close>

fun set_first :: "query \<Rightarrow> doc \<Rightarrow> doc list \<Rightarrow> doc list" where
  "set_first q s [] = []"
| "set_first q s (d # ds) = (if matches q d then (d ++ s) # ds else d # set_first q s ds)"

fun eq_fields :: "query \<Rightarrow> doc" where
  "eq_fields [] = Map.empty"
| "eq_fields ((k, Eq v) # q) = (eq_fields q)(k \<mapsto> v)"
| "eq_fields (_ # q) = eq_fields q"

definition update_one_upsert :: "query \<Rightarrow> doc \<Rightarrow> doc list \<Rightarrow> doc list" where
  "update_one_upsert q s coll =
     (if list_ex (matches q) coll then set_first q s coll
      else coll @ [eq_fields q ++ s])"

text \<open>
  The state of the service: the three collections, the GridFS bucket (file id to stored
  bytes) and a counter that feeds \<open>uuid.uuid4()\<close>, the bucket's object ids and
  \<open>datetime.utcnow()\<close>.
\<close>

type_synonym bytes = "nat list"

record db =
  candidates :: "doc list"
  job_descriptions :: "doc list"
  top_scores :: "doc list"
  gridfs :: "string \<rightharpoonup> bytes"
  clock :: nat

section \<open>The match aggregator\<close>

text \<open>
  \<open>routes/matching.py\<close> lines 144-150 and \<open>routes/job_descriptions.py\<close> lines 183-189:
  \<open>score.get(k, 0) * w\<close> for the four categories, summed. Multiplying a string, a list,
  a dict or \<open>None\<close> by a float raises \<open>TypeError\<close>; a bool counts as 0 or 1.
\<close>

fun times_float :: "jv \<Rightarrow> rat \<Rightarrow> exn + rat" where
  "times_float (JNum x) w = Inr (x * w)"
| "times_float (JBool b) w = Inr ((if b then 1 else 0) * w)"
| "times_float _ w = Inl TypeError"

definition weighted_total :: "doc \<Rightarrow> exn + rat" where
  "weighted_total score =
     (case times_float (dict_get score ''skills_score'' (JNum 0)) (50 / 100) of
        Inl e \<Rightarrow> Inl e
      | Inr a \<Rightarrow>
     (case times_float (dict_get score ''experience_score'' (JNum 0)) (30 / 100) of
        Inl e \<Rightarrow> Inl e
      | Inr b \<Rightarrow>
     (case times_float (dict_get score ''education_score'' (JNum 0)) (15 / 100) of
        Inl e \<Rightarrow> Inl e
      | Inr c \<Rightarrow>
     (case times_float (dict_get score ''certifications_score'' (JNum 0)) (5 / 100) of
        Inl e \<Rightarrow> Inl e
      | Inr d \<Rightarrow> Inr (a + b + c + d)))))"

text \<open>
  The record that is stored (matching.py lines 152-160, job\_descriptions.py lines
  191-199), a dict display evaluated left to right: five fields, then every field of the
  scorer's record (\<open>**score\<close>), then \<open>uid\<close>. A later key replaces an earlier one.
\<close>

definition score_data :: "string \<Rightarrow> string \<Rightarrow> jv \<Rightarrow> nat \<Rightarrow> rat \<Rightarrow> doc \<Rightarrow> string \<Rightarrow> doc" where
  "score_data score_id jd_id candidate_id now total_score score uid =
     ([''score_id'' \<mapsto> JStr score_id,
       ''jd_id'' \<mapsto> JStr jd_id,
       ''candidate_id'' \<mapsto> candidate_id,
       ''created_at'' \<mapsto> JDate now,
       ''total_score'' \<mapsto> JNum total_score] ++ score)(''uid'' \<mapsto> JStr uid)"

text \<open>
  One entry of the scorer's list, as both loops treat it: an entry that is not a dict, or
  that has an \<open>error\<close> key, is skipped (\<open>None\<close>); otherwise the total is computed and the
  record built. \<open>score["candidate_id"]\<close> raises \<open>KeyError\<close> when the key is missing.
\<close>

definition score_entry :: "(nat \<Rightarrow> string) \<Rightarrow> string \<Rightarrow> string \<Rightarrow> nat \<Rightarrow> jv \<Rightarrow> exn + (jv \<times> doc) option" where
  "score_entry uuid4 jd_id uid now entry =
     (case entry of
        JObj kvs \<Rightarrow>
          (let score = map_of kvs in
           if score ''error'' \<noteq> None then Inr None
           else (case weighted_total score of
                   Inl e \<Rightarrow> Inl e
                 | Inr total_score \<Rightarrow>
                     (case score ''candidate_id'' of
                        None \<Rightarrow> Inl (KeyError ''candidate_id'')
                      | Some cid \<Rightarrow>
                          Inr (Some (cid, score_data (uuid4 now) jd_id cid now total_score score uid)))))
      | _ \<Rightarrow> Inr None)"

text \<open>
  The loop of \<open>match_candidates\<close> (matching.py lines 133-170): each record is written with
  \<open>update_one\<close>, filter \<open>jd_id\<close> and \<open>candidate_id\<close>, \<open>upsert=True\<close>. An exception ends
  the loop; what was written before stays.
\<close>

fun store_scores_match :: "(nat \<Rightarrow> string) \<Rightarrow> string \<Rightarrow> string \<Rightarrow> jv list \<Rightarrow> db \<Rightarrow> db \<times> exn option" where
  "store_scores_match uuid4 jd_id uid [] st = (st, None)"
| "store_scores_match uuid4 jd_id uid (entry # rest) st =
     (case score_entry uuid4 jd_id uid (clock st) entry of
        Inl e \<Rightarrow> (st, Some e)
      | Inr None \<Rightarrow> store_scores_match uuid4 jd_id uid rest st
      | Inr (Some (cid, sd)) \<Rightarrow>
          store_scores_match uuid4 jd_id uid rest
            (st\<lparr>top_scores :=
                  update_one_upsert [(''jd_id'', Eq (JStr jd_id)), (''candidate_id'', Eq cid)] sd
                    (top_scores st),
                clock := Suc (clock st)\<rparr>))"

text \<open>
  The loop of the job upload (job\_descriptions.py lines 172-200): each record is written
  with \<open>insert_one\<close>.
\<close>

fun store_scores_upload :: "(nat \<Rightarrow> string) \<Rightarrow> string \<Rightarrow> string \<Rightarrow> jv list \<Rightarrow> db \<Rightarrow> db \<times> exn option" where
  "store_scores_upload uuid4 jd_id uid [] st = (st, None)"
| "store_scores_upload uuid4 jd_id uid (entry # rest) st =
     (case score_entry uuid4 jd_id uid (clock st) entry of
        Inl e \<Rightarrow> (st, Some e)
      | Inr None \<Rightarrow> store_scores_upload uuid4 jd_id uid rest st
      | Inr (Some (cid, sd)) \<Rightarrow>
          store_scores_upload uuid4 jd_id uid rest
            (st\<lparr>top_scores := insert_one sd (top_scores st), clock := Suc (clock st)\<rparr>))"

section \<open>The services outside the repository\<close>

text \<open>
  What the routes call and the source does not define is a parameter of the model: the
  random identifiers (\<open>uuid4\<close>, the bucket's object ids), the scoring call to the
  language model (its answer is any JSON value: \<open>analyze_multiple_resumes_structured\<close>
  returns whatever array it found in the model's reply, and an error record when
  something raised inside its \<open>try\<close>; writing the candidates into the prompt, before the
  \<open>try\<close>, raises when a summary holds a value that JSON cannot encode), Python's \<open>str()\<close> and
  \<open>type().__name__\<close> used in error messages, the text that \<open>match_candidates\<close> formats
  from the stored job (joining the required skills raises \<open>TypeError\<close> when they are not
  strings), \<open>hashlib.sha256(...).hexdigest()\<close>, the PDF, DOCX and OCR libraries, the
  chat completion calls of the parser with \<open>json.loads\<close>, the four regular expressions of
  \<open>clean_and_validate_data\<close>, and what the pydantic models accept beyond a value of
  exactly the declared type (\<open>coerces\<close>), and the number of documents the store
  puts into the first batch of a reply (\<open>first_batch\<close>).
\<close>

datatype ftype = TStr | TOptStr | TOptEmail | TStrList | TDatetime | TScore | TOptFloat

record env =
  uuid4 :: "nat \<Rightarrow> string"
  object_id :: "nat \<Rightarrow> string"
  analyze_multiple_resumes_structured :: "string \<Rightarrow> doc list \<Rightarrow> exn + jv"
  py_str :: "jv \<Rightarrow> string"
  py_type_name :: "jv \<Rightarrow> string"
  exn_str :: "exn \<Rightarrow> string"
  match_jd_text :: "doc \<Rightarrow> exn + string"
  sha256_hexdigest :: "bytes \<Rightarrow> string"
  pdf_page_texts :: "bytes \<Rightarrow> exn + string list"
  pdf_ocr_page_texts :: "bytes \<Rightarrow> exn + string list"
  docx_texts :: "bytes \<Rightarrow> exn + string list \<times> string list"
  image_ocr_text :: "bytes \<Rightarrow> exn + string"
  decode_utf8_ignore :: "bytes \<Rightarrow> string"
  groq_parse_resume :: "string \<Rightarrow> exn + string"
  groq_parse_jd :: "string \<Rightarrow> exn + string"
  json_loads :: "string \<Rightarrow> exn + jv"
  re_sub_titles :: "string \<Rightarrow> string"
  re_sub_spaces :: "string \<Rightarrow> string"
  re_match_email :: "string \<Rightarrow> bool"
  re_sub_contact :: "string \<Rightarrow> string"
  coerces :: "ftype \<Rightarrow> jv \<Rightarrow> bool"
  first_batch :: "doc list \<Rightarrow> nat"

text \<open>An exception that no handler catches is answered by the framework with status 500.\<close>

definition internal_server_error :: http_error where
  "internal_server_error = HTTPError 500 ''Internal Server Error''"

section \<open>routes/matching.py: match\_candidates\<close>

text \<open>The summary of a candidate sent to the scorer (lines 89-97); \<open>c["candidate_id"]\<close> raises when missing.\<close>

definition resume_of :: "doc \<Rightarrow> exn + doc" where
  "resume_of c =
     (case c ''candidate_id'' of
        None \<Rightarrow> Inl (KeyError ''candidate_id'')
      | Some cid \<Rightarrow>
          Inr [''candidate_id'' \<mapsto> cid,
               ''name'' \<mapsto> dict_get c ''name'' (JStr ''Unknown''),
               ''email'' \<mapsto> dict_get c ''email'' (JStr []),
               ''skills'' \<mapsto> dict_get c ''skills'' (JList []),
               ''experience'' \<mapsto> dict_get c ''experience'' (JStr []),
               ''education'' \<mapsto> dict_get c ''education'' (JList []),
               ''certifications'' \<mapsto> dict_get c ''certifications'' (JList [])])"

fun resumes_of :: "doc list \<Rightarrow> exn + doc list" where
  "resumes_of [] = Inr []"
| "resumes_of (c # cs) =
     (case resume_of c of
        Inl e \<Rightarrow> Inl e
      | Inr r \<Rightarrow> (case resumes_of cs of Inl e \<Rightarrow> Inl e | Inr rs \<Rightarrow> Inr (r # rs)))"

text \<open>\<open>isinstance(first_item, dict) and "error" in first_item\<close>, with the value of the key.\<close>

definition error_of :: "jv \<Rightarrow> jv option" where
  "error_of item = (case item of JObj kvs \<Rightarrow> map_of kvs ''error'' | _ \<Rightarrow> None)"

text \<open>The filter on the candidates (lines 76-78): \<open>candidate_ids\<close> is optional, and an empty list is falsy.\<close>

definition candidates_query :: "string \<Rightarrow> string list option \<Rightarrow> query" where
  "candidates_query uid candidate_ids =
     (case candidate_ids of
        None \<Rightarrow> [(''uid'', Eq (JStr uid))]
      | Some ids \<Rightarrow>
          (if ids = [] then [(''uid'', Eq (JStr uid))]
           else [(''uid'', Eq (JStr uid)), (''candidate_id'', In (map JStr ids))]))"

text \<open>
  The route. The answer on success carries the number of scores and the scorer's list as
  it came. The weight profile of the request body is never read by the source.
\<close>

definition match_candidates ::
  "env \<Rightarrow> string \<Rightarrow> string list option \<Rightarrow> string \<Rightarrow> db \<Rightarrow> db \<times> (http_error + nat \<times> jv)" where
  "match_candidates E jd_id candidate_ids uid st =
     (case find_one [(''jd_id'', Eq (JStr jd_id)), (''uid'', Eq (JStr uid))] (job_descriptions st) of
        None \<Rightarrow> (st, Inl (HTTPError 404 ''Job description not found''))
      | Some jd \<Rightarrow>
          (let cands = find_docs (candidates_query uid candidate_ids) (candidates st) in
           if cands = [] then (st, Inl (HTTPError 404 ''No candidates found''))
           else
             (case resumes_of cands of
                Inl e \<Rightarrow> (st, Inl internal_server_error)
              | Inr resumes \<Rightarrow>
                  (case match_jd_text E jd of
                     Inl e \<Rightarrow> (st, Inl internal_server_error)
                   | Inr jd_text \<Rightarrow>
                       (case analyze_multiple_resumes_structured E jd_text resumes of
                          Inl e \<Rightarrow> (st, Inl internal_server_error)
                        | Inr scores \<Rightarrow>
                       (case scores of
                          JList (first_item # others) \<Rightarrow>
                            (case error_of first_item of
                               Some error_detail \<Rightarrow>
                                 (st, Inl (HTTPError 500 (''AI analysis error: '' @ py_str E error_detail)))
                             | None \<Rightarrow>
                                 (case store_scores_match (uuid4 E) jd_id uid (first_item # others) st of
                                    (st', Some e) \<Rightarrow> (st', Inl internal_server_error)
                                  | (st', None) \<Rightarrow>
                                      (st', Inr (Suc (length others), JList (first_item # others)))))
                        | _ \<Rightarrow>
                            (st, Inl (HTTPError 500
                               (''AI analysis failed: returned '' @ py_type_name E scores
                                  @ '' instead of list'')))))))))"

section \<open>Strings\<close>

text \<open>
  Python's \<open>str.lower\<close>, \<open>str.endswith\<close>, \<open>str.strip\<close> and \<open>str.join\<close>. A character
  is a code point below 256. \<open>lower\<close> maps A-Z: what Python does to letters outside
  ASCII never produces an ASCII letter of the file extensions or of the skill table, and
  the e-mail pattern admits ASCII only. \<open>strip\<close> removes the characters for which
  \<open>str.isspace\<close> holds at both ends.
\<close>

definition lower_char :: "char \<Rightarrow> char" where
  "lower_char c =
     (case map_of (zip ''ABCDEFGHIJKLMNOPQRSTUVWXYZ'' ''abcdefghijklmnopqrstuvwxyz'') c of
        None \<Rightarrow> c
      | Some l \<Rightarrow> l)"

definition lower :: "string \<Rightarrow> string" where
  "lower s = map lower_char s"

fun startswith :: "string \<Rightarrow> string \<Rightarrow> bool" where
  "startswith s [] = True"
| "startswith [] (c # cs) = False"
| "startswith (x # xs) (c # cs) = (x = c \<and> startswith xs cs)"

definition endswith :: "string \<Rightarrow> string \<Rightarrow> bool" where
  "endswith s suffix = startswith (rev s) (rev suffix)"

definition isspace :: "char \<Rightarrow> bool" where
  "isspace c =
     (c \<in> set [CHR 0x09, CHR 0x0A, CHR 0x0B, CHR 0x0C, CHR 0x0D, CHR 0x1C, CHR 0x1D,
               CHR 0x1E, CHR 0x1F, CHR 0x20, CHR 0x85, CHR 0xA0])"

definition strip :: "string \<Rightarrow> string" where
  "strip s = rev (dropWhile isspace (rev (dropWhile isspace s)))"

fun join :: "string \<Rightarrow> string list \<Rightarrow> string" where
  "join sep [] = []"
| "join sep [x] = x"
| "join sep (x # y # ys) = x @ sep @ join sep (y # ys)"

section \<open>utils/file\_extractor.py\<close>

record upload_file =
  filename :: string
  content :: bytes
  content_type :: string

definition is_supported_file :: "string \<Rightarrow> bool" where
  "is_supported_file name =
     list_ex (endswith (lower name))
       [''.pdf'', ''.docx'', ''.txt'', ''.jpg'', ''.jpeg'', ''.png'', ''.bmp'', ''.tiff'']"

definition pages_text :: "string list \<Rightarrow> string" where
  "pages_text pages = concat (map (\<lambda>p. p @ [CHR 0x0A]) pages)"

text \<open>
  \<open>extract_from_pdf\<close>: the text layer first; with 100 characters or fewer of it, OCR of
  the pages is appended; when anything raised, OCR alone is tried, and when that raises
  too the first exception is reported.
\<close>

definition extract_from_pdf :: "env \<Rightarrow> bytes \<Rightarrow> exn + string" where
  "extract_from_pdf E pdf_bytes =
     (let attempt =
        (case pdf_page_texts E pdf_bytes of
           Inl e \<Rightarrow> Inl e
         | Inr pages \<Rightarrow>
             (let text = pages_text (filter (\<lambda>p. p \<noteq> []) pages) in
              if 100 < length (strip text) then Inr text
              else (case pdf_ocr_page_texts E pdf_bytes of
                      Inl e \<Rightarrow> Inl e
                    | Inr ocr \<Rightarrow> Inr (text @ pages_text ocr))))
      in case attempt of
           Inr text \<Rightarrow> Inr text
         | Inl e \<Rightarrow>
             (case pdf_ocr_page_texts E pdf_bytes of
                Inr ocr \<Rightarrow> Inr (pages_text ocr)
              | Inl e2 \<Rightarrow>
                  Inl (LibraryError (''Could not extract text from PDF: '' @ exn_str E e))))"

definition extract_from_docx :: "env \<Rightarrow> bytes \<Rightarrow> exn + string" where
  "extract_from_docx E docx_bytes =
     (case docx_texts E docx_bytes of
        Inl e \<Rightarrow> Inl (LibraryError (''Could not extract text from DOCX: '' @ exn_str E e))
      | Inr (paragraphs, cells) \<Rightarrow>
          Inr (join [CHR 0x0A] (filter (\<lambda>p. strip p \<noteq> []) paragraphs)
               @ concat (map (\<lambda>c. CHR 0x0A # c) (filter (\<lambda>c. strip c \<noteq> []) cells))))"

definition extract_from_image :: "env \<Rightarrow> bytes \<Rightarrow> exn + string" where
  "extract_from_image E image_bytes =
     (case image_ocr_text E image_bytes of
        Inl e \<Rightarrow> Inl (LibraryError (''Could not extract text from image: '' @ exn_str E e))
      | Inr text \<Rightarrow>
          (if strip text = [] then
             Inl (LibraryError (''Could not extract text from image: ''
                    @ exn_str E (LibraryError ''No text could be extracted from image'')))
           else Inr text))"

text \<open>
  \<open>extract_text_from_upload\<close>: the extension decides; an \<open>HTTPException\<close> passes, any
  other exception becomes an \<open>HTTPException\<close> with status 500.
\<close>

definition extract_text_from_upload :: "env \<Rightarrow> upload_file \<Rightarrow> exn + string" where
  "extract_text_from_upload E file =
     (let name = lower (filename file);
          r = (if endswith name ''.pdf'' then extract_from_pdf E (content file)
               else if endswith name ''.docx'' then extract_from_docx E (content file)
               else if endswith name ''.txt'' then Inr (decode_utf8_ignore E (content file))
               else if list_ex (endswith name) [''.jpg'', ''.jpeg'', ''.png'', ''.bmp'', ''.tiff'']
                 then extract_from_image E (content file)
               else Inl (HTTPException 400
                      ''Unsupported file format. Supported: PDF, DOCX, TXT, JPG, PNG''))
      in case r of
           Inr text \<Rightarrow> Inr text
         | Inl (HTTPException code detail) \<Rightarrow> Inl (HTTPException code detail)
         | Inl e \<Rightarrow> Inl (HTTPException 500 (''Error extracting text from file: '' @ exn_str E e)))"

section \<open>llmservices/parser\_llm.py\<close>

definition bind_exn :: "exn + 'a \<Rightarrow> ('a \<Rightarrow> exn + 'b) \<Rightarrow> exn + 'b" where
  "bind_exn m f = (case m of Inl e \<Rightarrow> Inl e | Inr x \<Rightarrow> f x)"

text \<open>\<open>v.strip()\<close> on a value of the model's reply: only a string has the method.\<close>

fun str_strip :: "jv \<Rightarrow> exn + string" where
  "str_strip (JStr s) = Inr (strip s)"
| "str_strip _ = Inl AttributeError"

text \<open>Iterating a value: a list gives its elements, a string its characters, a dict its keys.\<close>

fun py_iter :: "jv \<Rightarrow> exn + jv list" where
  "py_iter (JList vs) = Inr vs"
| "py_iter (JStr s) = Inr (map (\<lambda>c. JStr [c]) s)"
| "py_iter (JObj kvs) = Inr (map (\<lambda>kv. JStr (fst kv)) kvs)"
| "py_iter _ = Inl TypeError"

text \<open>\<open>[x.strip() for x in xs if x.strip()]\<close>.\<close>

fun strip_items :: "jv list \<Rightarrow> exn + string list" where
  "strip_items [] = Inr []"
| "strip_items (v # vs) =
     bind_exn (str_strip v) (\<lambda>s.
     bind_exn (strip_items vs) (\<lambda>ss. Inr (if s \<noteq> [] then s # ss else ss)))"

definition stripped_list :: "jv \<Rightarrow> exn + jv" where
  "stripped_list v =
     bind_exn (py_iter v) (\<lambda>xs. bind_exn (strip_items xs) (\<lambda>ss. Inr (JList (map JStr ss))))"

text \<open>\<open>list(dict.fromkeys(xs))\<close>: the first occurrence of each element stays.\<close>

definition dedup :: "'a list \<Rightarrow> 'a list" where
  "dedup xs = rev (remdups (rev xs))"

definition skill_mappings :: "(string \<times> string) list" where
  "skill_mappings =
     [(''js'', ''JavaScript''), (''ts'', ''TypeScript''), (''py'', ''Python''),
      (''ml'', ''Machine Learning''), (''ai'', ''Artificial Intelligence''),
      (''dl'', ''Deep Learning''), (''nlp'', ''Natural Language Processing''),
      (''css3'', ''CSS''), (''html5'', ''HTML''), (''reactjs'', ''React''),
      (''nodejs'', ''Node.js''), (''nextjs'', ''Next.js'')]"

definition normalize_skill :: "string \<Rightarrow> string" where
  "normalize_skill skill =
     (case map_of skill_mappings (lower skill) of None \<Rightarrow> skill | Some n \<Rightarrow> n)"

definition clean_skills :: "jv \<Rightarrow> exn + jv" where
  "clean_skills skills =
     (if truthy skills then
        bind_exn (py_iter skills) (\<lambda>xs.
        bind_exn (strip_items xs) (\<lambda>ss.
          Inr (JList (map JStr (dedup (map normalize_skill (dedup ss)))))))
      else Inr skills)"

definition clean_email :: "env \<Rightarrow> jv \<Rightarrow> exn + jv" where
  "clean_email E email =
     (if truthy email then
        (case email of
           JStr s \<Rightarrow>
             (let e = strip (lower s) in Inr (if re_match_email E e then JStr e else JNull))
         | _ \<Rightarrow> Inl AttributeError)
      else Inr JNull)"

text \<open>
  \<open>clean_and_validate_data\<close>. A reply that is not a JSON object has no \<open>get\<close>. The result
  has exactly twelve keys.
\<close>

definition clean_and_validate_data :: "env \<Rightarrow> jv \<Rightarrow> exn + doc" where
  "clean_and_validate_data E parsed =
     (case parsed of
        JObj kvs \<Rightarrow>
          (let p = map_of kvs in
           bind_exn (str_strip (dict_get p ''name'' (JStr []))) (\<lambda>name0.
           let name = re_sub_spaces E (re_sub_titles E name0) in
           bind_exn (clean_email E (dict_get p ''email'' (JStr []))) (\<lambda>email.
           bind_exn (str_strip (dict_get p ''contact'' (JStr []))) (\<lambda>contact0.
           let contact = (if contact0 \<noteq> [] then strip (re_sub_spaces E (re_sub_contact E contact0))
                          else contact0) in
           bind_exn (clean_skills (dict_get p ''skills'' (JList []))) (\<lambda>skills.
           bind_exn (str_strip (dict_get p ''experience'' (JStr []))) (\<lambda>experience0.
           let experience = (if experience0 \<noteq> [] then re_sub_spaces E experience0
                             else experience0) in
           bind_exn (str_strip (dict_get p ''location'' (JStr []))) (\<lambda>location.
           bind_exn (str_strip (dict_get p ''designation'' (JStr []))) (\<lambda>designation.
           bind_exn (str_strip (dict_get p ''education'' (JStr []))) (\<lambda>education.
           bind_exn (stripped_list (dict_get p ''certifications'' (JList []))) (\<lambda>certifications.
           bind_exn (stripped_list (dict_get p ''projects'' (JList []))) (\<lambda>projects.
           bind_exn (stripped_list (dict_get p ''key_achievements'' (JList []))) (\<lambda>key_achievements.
           bind_exn (str_strip (dict_get p ''professional_summary'' (JStr []))) (\<lambda>professional_summary.
             Inr [''name'' \<mapsto> JStr (if name \<noteq> [] then name else ''Unknown''),
                  ''email'' \<mapsto> email,
                  ''contact'' \<mapsto> JStr contact,
                  ''location'' \<mapsto> JStr location,
                  ''designation'' \<mapsto> JStr designation,
                  ''experience'' \<mapsto> JStr experience,
                  ''education'' \<mapsto> JStr education,
                  ''skills'' \<mapsto> skills,
                  ''certifications'' \<mapsto> certifications,
                  ''projects'' \<mapsto> projects,
                  ''key_achievements'' \<mapsto> key_achievements,
                  ''professional_summary'' \<mapsto> JStr professional_summary])))))))))))))
      | _ \<Rightarrow> Inl AttributeError)"

text \<open>The record of the \<open>except\<close> branch of \<open>parse_resume\<close> (lines 204-219).\<close>

definition resume_fallback :: "env \<Rightarrow> exn \<Rightarrow> doc" where
  "resume_fallback E e =
     [''name'' \<mapsto> JStr ''Unknown'',
      ''email'' \<mapsto> JNull,
      ''contact'' \<mapsto> JStr [],
      ''location'' \<mapsto> JStr [],
      ''designation'' \<mapsto> JStr [],
      ''experience'' \<mapsto> JStr [],
      ''education'' \<mapsto> JStr [],
      ''skills'' \<mapsto> JList [],
      ''certifications'' \<mapsto> JList [],
      ''projects'' \<mapsto> JList [],
      ''key_achievements'' \<mapsto> JList [],
      ''professional_summary'' \<mapsto> JStr (''Error parsing resume: '' @ exn_str E e)]"

text \<open>The body of the \<open>try\<close> of \<open>parse_resume\<close>: the call, \<open>json.loads\<close>, the cleaning.\<close>

definition parse_resume_try :: "env \<Rightarrow> string \<Rightarrow> exn + doc" where
  "parse_resume_try E resume_text =
     bind_exn (groq_parse_resume E resume_text) (\<lambda>result_text.
     bind_exn (json_loads E result_text) (\<lambda>parsed. clean_and_validate_data E parsed))"

definition parse_resume :: "env \<Rightarrow> string \<Rightarrow> doc" where
  "parse_resume E resume_text =
     (case parse_resume_try E resume_text of
        Inr cleaned_data \<Rightarrow> cleaned_data
      | Inl e \<Rightarrow> resume_fallback E e)"

text \<open>\<open>parse_job_description\<close>: ten keys, each \<open>parsed.get(key, default)\<close>, uncleaned.\<close>

definition jd_fields :: "jv \<Rightarrow> exn + doc" where
  "jd_fields parsed =
     (case parsed of
        JObj kvs \<Rightarrow>
          (let p = map_of kvs in
           Inr [''job_title'' \<mapsto> dict_get p ''job_title'' (JStr ''Untitled Position''),
                ''company'' \<mapsto> dict_get p ''company'' (JStr []),
                ''location'' \<mapsto> dict_get p ''location'' (JStr []),
                ''job_type'' \<mapsto> dict_get p ''job_type'' (JStr []),
                ''experience_required'' \<mapsto> dict_get p ''experience_required'' (JStr []),
                ''required_skills'' \<mapsto> dict_get p ''required_skills'' (JList []),
                ''preferred_skills'' \<mapsto> dict_get p ''preferred_skills'' (JList []),
                ''responsibilities'' \<mapsto> dict_get p ''responsibilities'' (JList []),
                ''qualifications'' \<mapsto> dict_get p ''qualifications'' (JList []),
                ''description'' \<mapsto> dict_get p ''description'' (JStr [])])
      | _ \<Rightarrow> Inl AttributeError)"

definition jd_fallback :: "env \<Rightarrow> exn \<Rightarrow> doc" where
  "jd_fallback E e =
     [''job_title'' \<mapsto> JStr ''Untitled Position'',
      ''company'' \<mapsto> JStr [],
      ''location'' \<mapsto> JStr [],
      ''job_type'' \<mapsto> JStr [],
      ''experience_required'' \<mapsto> JStr [],
      ''required_skills'' \<mapsto> JList [],
      ''preferred_skills'' \<mapsto> JList [],
      ''responsibilities'' \<mapsto> JList [],
      ''qualifications'' \<mapsto> JList [],
      ''description'' \<mapsto> JStr (''Error parsing JD: '' @ exn_str E e)]"

definition parse_job_description_try :: "env \<Rightarrow> string \<Rightarrow> exn + doc" where
  "parse_job_description_try E jd_text =
     bind_exn (groq_parse_jd E jd_text) (\<lambda>result_text.
     bind_exn (json_loads E result_text) (\<lambda>parsed. jd_fields parsed))"

definition parse_job_description :: "env \<Rightarrow> string \<Rightarrow> doc" where
  "parse_job_description E jd_text =
     (case parse_job_description_try E jd_text of
        Inr jd_parsed \<Rightarrow> jd_parsed
      | Inl e \<Rightarrow> jd_fallback E e)"

section \<open>models/schemas.py\<close>

text \<open>
  The pydantic models, as far as the routes construct them: a field list with the declared
  types. A value of exactly the declared type is accepted (an e-mail string goes to the
  e-mail validator, which is outside); what else a model accepts by conversion is the
  parameter \<open>coerces\<close>. \<open>total_score\<close> takes a number or nothing. Fields that a model does
  not declare are ignored.
\<close>

fun exact :: "ftype \<Rightarrow> jv option \<Rightarrow> bool" where
  "exact TStr v = (case v of Some (JStr s) \<Rightarrow> True | _ \<Rightarrow> False)"
| "exact TOptStr v = (case v of None \<Rightarrow> True | Some JNull \<Rightarrow> True | Some (JStr s) \<Rightarrow> True | _ \<Rightarrow> False)"
| "exact TOptEmail v = (case v of None \<Rightarrow> True | Some JNull \<Rightarrow> True | _ \<Rightarrow> False)"
| "exact TStrList v =
     (case v of None \<Rightarrow> True
      | Some (JList xs) \<Rightarrow> list_all (\<lambda>x. case x of JStr s \<Rightarrow> True | _ \<Rightarrow> False) xs
      | _ \<Rightarrow> False)"
| "exact TDatetime v = (case v of None \<Rightarrow> True | Some (JDate t) \<Rightarrow> True | _ \<Rightarrow> False)"
| "exact TScore v = (case v of Some (JNum x) \<Rightarrow> 0 \<le> x \<and> x \<le> 100 | _ \<Rightarrow> False)"
| "exact TOptFloat v = (case v of None \<Rightarrow> True | Some JNull \<Rightarrow> True | Some (JNum x) \<Rightarrow> True | _ \<Rightarrow> False)"

definition field_ok :: "env \<Rightarrow> doc \<Rightarrow> string \<times> ftype \<Rightarrow> bool" where
  "field_ok E d f =
     (exact (snd f) (d (fst f))
      \<or> (case d (fst f) of None \<Rightarrow> False | Some v \<Rightarrow> snd f \<noteq> TOptFloat \<and> coerces E (snd f) v))"

definition validates :: "env \<Rightarrow> (string \<times> ftype) list \<Rightarrow> doc \<Rightarrow> bool" where
  "validates E schema d = list_all (field_ok E d) schema"

definition Candidate :: "(string \<times> ftype) list" where
  "Candidate =
     [(''candidate_id'', TStr), (''uid'', TStr), (''file_hash'', TOptStr), (''name'', TOptStr),
      (''email'', TOptEmail), (''contact'', TOptStr), (''location'', TOptStr),
      (''designation'', TOptStr), (''experience'', TOptStr), (''education'', TOptStr),
      (''skills'', TStrList), (''certifications'', TStrList), (''projects'', TStrList),
      (''key_achievements'', TStrList), (''professional_summary'', TOptStr),
      (''profile_type'', TOptStr), (''resume_url'', TOptStr), (''resume_filename'', TOptStr),
      (''created_at'', TDatetime), (''updated_at'', TDatetime)]"

definition JobDescription :: "(string \<times> ftype) list" where
  "JobDescription =
     [(''jd_id'', TStr), (''uid'', TStr), (''file_hash'', TOptStr), (''job_title'', TOptStr),
      (''company'', TOptStr), (''location'', TOptStr), (''job_type'', TOptStr),
      (''experience_required'', TOptStr), (''required_skills'', TStrList),
      (''preferred_skills'', TStrList), (''responsibilities'', TStrList),
      (''qualifications'', TStrList), (''description'', TOptStr), (''jd_url'', TOptStr),
      (''jd_filename'', TOptStr), (''created_at'', TDatetime), (''updated_at'', TDatetime)]"

definition CandidateScore :: "(string \<times> ftype) list" where
  "CandidateScore =
     [(''uid'', TStr), (''candidate_id'', TStr), (''jd_id'', TStr), (''name'', TStr),
      (''email'', TOptStr), (''contact'', TOptStr), (''designation'', TOptStr),
      (''experience'', TOptStr), (''education'', TOptStr), (''location'', TOptStr),
      (''resume_url'', TOptStr), (''profile_type'', TOptStr),
      (''skills_score'', TScore), (''skills_explanation'', TStr),
      (''experience_score'', TScore), (''experience_explanation'', TStr),
      (''education_score'', TScore), (''education_explanation'', TStr),
      (''certifications_score'', TScore), (''certifications_explanation'', TStr),
      (''skills_matched'', TStrList), (''skills_related'', TStrList),
      (''skills_missing'', TStrList), (''key_achievements'', TStrList),
      (''total_score'', TOptFloat), (''created_at'', TDatetime)]"

section \<open>The upload routes\<close>

text \<open>
  What the loop body of an upload route does with one file: a record is created, the file
  is skipped (\<open>continue\<close>, with the reason put on \<open>skipped_files\<close>), or an exception
  leaves the body.
\<close>

datatype outcome = Created doc | Skipped string | Failed exn

text \<open>
  The loop of both routes (candidates.py lines 39-133, job\_descriptions.py lines 57-211):
  \<open>except Exception as e: raise HTTPException(500, "Error processing ...")\<close> ends the
  request at the first exception. The route returns the created records; the list
  \<open>skipped_files\<close> is only printed, it is the second component here.
\<close>

fun upload_batch ::
  "(upload_file \<Rightarrow> db \<Rightarrow> db \<times> outcome) \<Rightarrow> (exn \<Rightarrow> string) \<Rightarrow> upload_file list \<Rightarrow> db \<Rightarrow>
     doc list \<Rightarrow> (string \<times> string) list \<Rightarrow> db \<times> (string \<times> string) list \<times> (http_error + doc list)" where
  "upload_batch step str [] st created skipped_files = (st, skipped_files, Inr created)"
| "upload_batch step str (file # files) st created skipped_files =
     (case step file st of
        (st', Created stored) \<Rightarrow> upload_batch step str files st' (created @ [stored]) skipped_files
      | (st', Skipped reason) \<Rightarrow>
          upload_batch step str files st' created (skipped_files @ [(filename file, reason)])
      | (st', Failed e) \<Rightarrow>
          (st', skipped_files,
           Inl (HTTPError 500 (''Error processing '' @ filename file @ '': '' @ str e))))"

subsection \<open>routes/candidates.py: upload\_candidates\<close>

definition candidate_data :: "string \<Rightarrow> string \<Rightarrow> string \<Rightarrow> string \<Rightarrow> string \<Rightarrow> nat \<Rightarrow> doc \<Rightarrow> doc" where
  "candidate_data candidate_id uid file_id file_hash name now parsed_data =
     [''candidate_id'' \<mapsto> JStr candidate_id,
      ''uid'' \<mapsto> JStr uid,
      ''file_id'' \<mapsto> JStr file_id,
      ''file_hash'' \<mapsto> JStr file_hash,
      ''resume_filename'' \<mapsto> JStr name,
      ''uploaded_at'' \<mapsto> JDate now] ++ parsed_data"

text \<open>\<open>len(x)\<close>: strings, lists and dicts have a length.\<close>

fun py_len :: "jv \<Rightarrow> exn + nat" where
  "py_len (JStr s) = Inr (length s)"
| "py_len (JList vs) = Inr (length vs)"
| "py_len (JObj kvs) = Inr (length kvs)"
| "py_len _ = Inl TypeError"

text \<open>
  The body of the loop (lines 41-122). The line that prints the parsed data takes
  \<open>len(parsed_data.get('skills', []))\<close>, which raises for a value without a length.
\<close>

definition process_candidate_file :: "env \<Rightarrow> string \<Rightarrow> upload_file \<Rightarrow> db \<Rightarrow> db \<times> outcome" where
  "process_candidate_file E uid file st =
     (if \<not> is_supported_file (filename file) then
        (st, Failed (HTTPException 400
           (''Unsupported file format: '' @ filename file @ ''. Supported: PDF, DOCX, TXT, JPG, PNG'')))
      else
        (let file_hash = sha256_hexdigest E (content file) in
         case find_one [(''uid'', Eq (JStr uid)), (''file_hash'', Eq (JStr file_hash))] (candidates st) of
           Some existing_by_hash \<Rightarrow> (st, Skipped ''Duplicate file - same content already uploaded'')
         | None \<Rightarrow>
             (case extract_text_from_upload E file of
                Inl e \<Rightarrow> (st, Failed e)
              | Inr resume_text \<Rightarrow>
                  (if resume_text = [] \<or> length (strip resume_text) < 50 then
                     (st, Failed (HTTPException 400
                        (''Could not extract sufficient text from '' @ filename file
                           @ ''. Please ensure the file is readable.'')))
                   else
                     (let parsed_data = parse_resume E resume_text;
                          email = dict_get parsed_data ''email'' JNull
                      in case py_len (dict_get parsed_data ''skills'' (JList [])) of
                           Inl e \<Rightarrow> (st, Failed e)
                         | Inr number_of_skills \<Rightarrow>
                        (case (if truthy email
                               then find_one [(''uid'', Eq (JStr uid)), (''email'', Eq email)] (candidates st)
                               else None) of
                           Some existing_by_email \<Rightarrow>
                             (st, Skipped (''Candidate with email '' @ py_str E email @ '' already exists''))
                         | None \<Rightarrow>
                             (let file_id = object_id E (clock st);
                                  st1 = st\<lparr>gridfs := (gridfs st)(file_id \<mapsto> content file),
                                           clock := Suc (clock st)\<rparr>;
                                  stored = candidate_data (uuid4 E (clock st1)) uid file_id file_hash
                                             (filename file) (clock st1) parsed_data;
                                  st2 = st1\<lparr>candidates := insert_one stored (candidates st1),
                                            clock := Suc (clock st1)\<rparr>
                              in if validates E Candidate stored then (st2, Created stored)
                                 else (st2, Failed ValidationError))))))))"

definition upload_candidates ::
  "env \<Rightarrow> upload_file list \<Rightarrow> string \<Rightarrow> db \<Rightarrow> db \<times> (string \<times> string) list \<times> (http_error + doc list)" where
  "upload_candidates E files uid st =
     upload_batch (process_candidate_file E uid) (exn_str E) files st [] []"

subsection \<open>routes/job\_descriptions.py: upload\_job\_descriptions\<close>

text \<open>The text extraction written into the route (lines 80-91); the extension is compared as it is.\<close>

definition jd_extract_text :: "env \<Rightarrow> upload_file \<Rightarrow> exn + string" where
  "jd_extract_text E file =
     (if endswith (filename file) ''.pdf'' then
        (case pdf_page_texts E (content file) of
           Inl e \<Rightarrow> Inl e
         | Inr pages \<Rightarrow> Inr (concat pages))
      else if endswith (filename file) ''.docx'' then
        (case docx_texts E (content file) of
           Inl e \<Rightarrow> Inl e
         | Inr (paragraphs, cells) \<Rightarrow> Inr (join [CHR 0x0A] paragraphs))
      else Inl (HTTPException 400 ''Unsupported file format. Use PDF or DOCX''))"

definition jd_data :: "string \<Rightarrow> string \<Rightarrow> string \<Rightarrow> string \<Rightarrow> string \<Rightarrow> nat \<Rightarrow> doc \<Rightarrow> doc" where
  "jd_data jd_id uid file_id file_hash name now parsed_data =
     [''jd_id'' \<mapsto> JStr jd_id,
      ''uid'' \<mapsto> JStr uid,
      ''file_id'' \<mapsto> JStr file_id,
      ''file_hash'' \<mapsto> JStr file_hash,
      ''jd_filename'' \<mapsto> JStr name,
      ''uploaded_at'' \<mapsto> JDate now] ++ parsed_data"

text \<open>
  The checks on the scorer's answer in the upload route (lines 157-169): an answer that
  is empty, not a list, or whose first entry has an \<open>error\<close> key is replaced by the empty
  list.
\<close>

definition usable_scores :: "jv \<Rightarrow> jv list" where
  "usable_scores scores =
     (case scores of
        JList (first_item # others) \<Rightarrow>
          (if error_of first_item \<noteq> None then [] else first_item # others)
      | _ \<Rightarrow> [])"

text \<open>The automatic matching of a stored job with the caller's candidates (lines 134-200).\<close>

definition fan_out :: "env \<Rightarrow> string \<Rightarrow> string \<Rightarrow> string \<Rightarrow> db \<Rightarrow> db \<times> exn option" where
  "fan_out E jd_id jd_text uid st =
     (let cands = find_docs [(''uid'', Eq (JStr uid))] (candidates st) in
      if cands = [] then (st, None)
      else
        (case resumes_of cands of
           Inl e \<Rightarrow> (st, Some e)
         | Inr resumes \<Rightarrow>
             (case analyze_multiple_resumes_structured E jd_text resumes of
                Inl e \<Rightarrow> (st, Some e)
              | Inr scores \<Rightarrow>
                  store_scores_upload (uuid4 E) jd_id uid (usable_scores scores) st)))"

definition process_jd_file :: "env \<Rightarrow> string \<Rightarrow> upload_file \<Rightarrow> db \<Rightarrow> db \<times> outcome" where
  "process_jd_file E uid file st =
     (let file_hash = sha256_hexdigest E (content file) in
      case find_one [(''uid'', Eq (JStr uid)), (''file_hash'', Eq (JStr file_hash))] (job_descriptions st) of
        Some existing_by_hash \<Rightarrow> (st, Skipped ''Duplicate file - same content already uploaded'')
      | None \<Rightarrow>
          (case jd_extract_text E file of
             Inl e \<Rightarrow> (st, Failed e)
           | Inr jd_text \<Rightarrow>
               (let parsed_data = parse_job_description E jd_text;
                    job_title = dict_get parsed_data ''job_title'' JNull;
                    company = dict_get parsed_data ''company'' JNull
                in case (if truthy job_title \<and> truthy company
                         then find_one [(''uid'', Eq (JStr uid)), (''job_title'', Eq job_title),
                                        (''company'', Eq company)] (job_descriptions st)
                         else None) of
                     Some existing_by_title \<Rightarrow>
                       (st, Skipped (''Job description '' @ [CHR 0x27] @ py_str E job_title @ [CHR 0x27]
                              @ '' from '' @ [CHR 0x27] @ py_str E company @ [CHR 0x27]
                              @ '' already exists''))
                   | None \<Rightarrow>
                       (let file_id = object_id E (clock st);
                            st1 = st\<lparr>gridfs := (gridfs st)(file_id \<mapsto> content file),
                                     clock := Suc (clock st)\<rparr>;
                            jd_id = uuid4 E (clock st1);
                            stored = jd_data jd_id uid file_id file_hash (filename file) (clock st1)
                                       parsed_data;
                            st2 = st1\<lparr>job_descriptions := insert_one stored (job_descriptions st1),
                                      clock := Suc (clock st1)\<rparr>
                        in if \<not> validates E JobDescription stored then (st2, Failed ValidationError)
                           else (case fan_out E jd_id jd_text uid st2 of
                                   (st3, Some e) \<Rightarrow> (st3, Failed e)
                                 | (st3, None) \<Rightarrow> (st3, Created stored))))))"

definition upload_job_descriptions ::
  "env \<Rightarrow> upload_file list \<Rightarrow> string \<Rightarrow> db \<Rightarrow> db \<times> (string \<times> string) list \<times> (http_error + doc list)" where
  "upload_job_descriptions E files uid st =
     upload_batch (process_jd_file E uid) (exn_str E) files st [] []"

section \<open>routes/matching.py: get\_top\_matches\<close>

text \<open>
  \<open>sort("total_score", -1)\<close>: the store compares values of different kinds by kind
  (missing and null below numbers, everything else above) and an array by its largest
  element. The key keeps the kind and, for a number, the value; the order the store gives
  to documents with equal keys is not specified, the model keeps them stable.
\<close>

fun value_key :: "jv \<Rightarrow> nat \<times> rat" where
  "value_key JNull = (0, 0)"
| "value_key (JNum x) = (1, x)"
| "value_key _ = (2, 0)"

definition total_score_key :: "doc \<Rightarrow> nat \<times> rat" where
  "total_score_key d =
     (case d ''total_score'' of
        None \<Rightarrow> (0, 0)
      | Some (JList vs) \<Rightarrow> fold max (map value_key vs) (0, 0)
      | Some v \<Rightarrow> value_key v)"

definition sort_descending :: "doc list \<Rightarrow> doc list" where
  "sort_descending ds = rev (sort_key total_score_key ds)"

text \<open>
  \<open>cursor.limit(n)\<close>: 0 is no limit; a negative number is the limit of its absolute
  value within the first batch of the reply.
\<close>

definition apply_limit :: "env \<Rightarrow> int \<Rightarrow> doc list \<Rightarrow> doc list" where
  "apply_limit E n ds =
     (if n = 0 then ds
      else if 0 < n then take (nat n) ds
      else take (min (nat (- n)) (first_batch E ds)) ds)"

text \<open>
  The route: 404 without a job of the caller with that id; otherwise the documents of the
  query, each made a \<open>CandidateScore\<close>; a document the model rejects raises, which the
  framework answers with 500.
\<close>

definition get_top_matches :: "env \<Rightarrow> string \<Rightarrow> rat \<Rightarrow> int \<Rightarrow> string \<Rightarrow> db \<Rightarrow> http_error + doc list" where
  "get_top_matches E jd_id min_score limit uid st =
     (case find_one [(''jd_id'', Eq (JStr jd_id)), (''uid'', Eq (JStr uid))] (job_descriptions st) of
        None \<Rightarrow> Inl (HTTPError 404 ''Job description not found'')
      | Some jd \<Rightarrow>
          (let scores =
                 apply_limit E limit
                   (sort_descending
                      (find_docs [(''jd_id'', Eq (JStr jd_id)), (''uid'', Eq (JStr uid)),
                                  (''total_score'', Gte min_score)] (top_scores st)))
           in if list_all (validates E CandidateScore) scores then Inr scores
              else Inl internal_server_error))"

section \<open>The download routes\<close>

record file_response =
  media_type :: string
  inline_filename :: string
  body :: bytes

definition download_media_type :: "string \<Rightarrow> string" where
  "download_media_type name =
     (if endswith (lower name) ''.pdf'' then ''application/pdf''
      else if endswith (lower name) ''.docx''
        then ''application/vnd.openxmlformats-officedocument.wordprocessingml.document''
      else if endswith (lower name) ''.doc'' then ''application/msword''
      else ''application/octet-stream'')"

text \<open>
  The second half of both download routes, inside their \<open>try\<close>: the stored file is read
  from the bucket (a missing \<open>file_id\<close>, an id that is no object id and an id without a
  file raise; \<open>ObjectId(None)\<close> is a fresh id, which has no file), the file name is taken
  from the record. Any exception is answered with 500.
\<close>

definition stream_file :: "env \<Rightarrow> doc \<Rightarrow> string \<Rightarrow> string \<Rightarrow> string \<Rightarrow> db \<Rightarrow> http_error + file_response" where
  "stream_file E d name_key title_key title_default st =
     (let failed = (\<lambda>e. Inl (HTTPError 500 (''Failed to download file: '' @ exn_str E e))) in
      case d ''file_id'' of
        None \<Rightarrow> failed (KeyError ''file_id'')
      | Some (JStr file_id) \<Rightarrow>
          (case gridfs st file_id of
             None \<Rightarrow> failed (LibraryError ''NoFile'')
           | Some contents \<Rightarrow>
               (case dict_get d name_key
                       (JStr (py_str E (dict_get d title_key (JStr title_default)) @ ''.pdf'')) of
                  JStr name \<Rightarrow>
                    Inr \<lparr>media_type = download_media_type name, inline_filename = name,
                         body = contents\<rparr>
                | _ \<Rightarrow> failed AttributeError))
      | Some JNull \<Rightarrow> failed (LibraryError ''NoFile'')
      | Some _ \<Rightarrow> failed TypeError)"

text \<open>candidates.py lines 232-281: the candidate is looked up by \<open>candidate_id\<close> alone.\<close>

definition download_candidate_resume :: "env \<Rightarrow> string \<Rightarrow> string \<Rightarrow> db \<Rightarrow> http_error + file_response" where
  "download_candidate_resume E candidate_id uid st =
     (case find_one [(''candidate_id'', Eq (JStr candidate_id))] (candidates st) of
        None \<Rightarrow> Inl (HTTPError 404 ''Candidate not found'')
      | Some candidate \<Rightarrow> stream_file E candidate ''resume_filename'' ''name'' ''resume'' st)"

text \<open>job\_descriptions.py lines 278-327: the job is looked up by \<open>jd_id\<close> alone.\<close>

definition download_job_description :: "env \<Rightarrow> string \<Rightarrow> string \<Rightarrow> db \<Rightarrow> http_error + file_response" where
  "download_job_description E jd_id uid st =
     (case find_one [(''jd_id'', Eq (JStr jd_id))] (job_descriptions st) of
        None \<Rightarrow> Inl (HTTPError 404 ''Job description not found'')
      | Some jd \<Rightarrow> stream_file E jd ''jd_filename'' ''job_title'' ''job_description'' st)"

text \<open>The sibling routes that read one record (candidates.py lines 157-173, job\_descriptions.py lines 232-245).\<close>

definition get_candidate :: "env \<Rightarrow> string \<Rightarrow> string \<Rightarrow> db \<Rightarrow> http_error + doc" where
  "get_candidate E candidate_id uid st =
     (case find_one [(''candidate_id'', Eq (JStr candidate_id)), (''uid'', Eq (JStr uid))] (candidates st) of
        None \<Rightarrow> Inl (HTTPError 404 ''Candidate not found'')
      | Some candidate \<Rightarrow>
          (let cleaned = (if candidate ''email'' = Some (JStr []) then candidate(''email'' \<mapsto> JNull)
                          else candidate)
           in if validates E Candidate cleaned then Inr cleaned else Inl internal_server_error))"

section \<open>Sample data\<close>

text \<open>
  A concrete instance of the outside services, on which the routes can be run: the scorer
  answers with a given value, the parser's model is unreachable (every parse falls back),
  the digest of a file is its bytes as characters, every byte of a file reads as twenty
  letters of text.
\<close>

definition sample_env :: "jv \<Rightarrow> env" where
  "sample_env answer =
     \<lparr>uuid4 = (\<lambda>n. ''id-'' @ replicate n CHR ''i''),
      object_id = (\<lambda>n. ''file-'' @ replicate n CHR ''i''),
      analyze_multiple_resumes_structured = (\<lambda>jd_text resumes. Inr answer),
      py_str = (\<lambda>v. case v of JStr s \<Rightarrow> s | _ \<Rightarrow> ''?''),
      py_type_name = (\<lambda>v. ''value''),
      exn_str = (\<lambda>e. case e of HTTPException code detail \<Rightarrow> detail
                         | LibraryError m \<Rightarrow> m | _ \<Rightarrow> ''error''),
      match_jd_text = (\<lambda>jd. Inr ''job''),
      sha256_hexdigest = (\<lambda>b. map char_of b),
      pdf_page_texts = (\<lambda>b. Inr (map (\<lambda>n. ''abcdefghijklmnopqrst'') b)),
      pdf_ocr_page_texts = (\<lambda>b. Inl (LibraryError ''no ocr'')),
      docx_texts = (\<lambda>b. Inr (map (\<lambda>n. ''abcdefghijklmnopqrst'') b, [])),
      image_ocr_text = (\<lambda>b. Inr (concat (map (\<lambda>n. ''abcdefghijklmnopqrst'') b))),
      decode_utf8_ignore = (\<lambda>b. concat (map (\<lambda>n. ''abcdefghijklmnopqrst'') b)),
      groq_parse_resume = (\<lambda>t. Inl (LibraryError ''unavailable'')),
      groq_parse_jd = (\<lambda>t. Inl (LibraryError ''unavailable'')),
      json_loads = (\<lambda>t. Inl (LibraryError ''no json'')),
      re_sub_titles = (\<lambda>s. s),
      re_sub_spaces = (\<lambda>s. s),
      re_match_email = (\<lambda>s. CHR ''@'' \<in> set s),
      re_sub_contact = (\<lambda>s. s),
      coerces = (\<lambda>t v. False),
      first_batch = length\<rparr>"

text \<open>Alice's job and candidate, with their files; nobody has been scored yet.\<close>

definition job1 :: doc where
  "job1 = [''jd_id'' \<mapsto> JStr ''jd1'', ''uid'' \<mapsto> JStr ''alice'', ''file_id'' \<mapsto> JStr ''f-job1'',
           ''file_hash'' \<mapsto> JStr (map char_of [4, 5 :: nat]), ''jd_filename'' \<mapsto> JStr ''job.pdf'',
           ''job_title'' \<mapsto> JStr ''Engineer'']"

definition cand1 :: doc where
  "cand1 = [''candidate_id'' \<mapsto> JStr ''c1'', ''uid'' \<mapsto> JStr ''alice'', ''file_id'' \<mapsto> JStr ''f-c1'',
            ''file_hash'' \<mapsto> JStr (map char_of [1, 2 :: nat]), ''resume_filename'' \<mapsto> JStr ''cv.pdf'',
            ''name'' \<mapsto> JStr ''Ann'']"

definition sample_db :: db where
  "sample_db =
     \<lparr>candidates = [cand1], job_descriptions = [job1], top_scores = [],
      gridfs = [''f-c1'' \<mapsto> [1, 2], ''f-job1'' \<mapsto> [4, 5]], clock = 0\<rparr>"

text \<open>
  A scorer's record for candidate \<open>c1\<close> with the category scores 90, 85, 80 and 70, which
  also carries a \<open>total_score\<close> and a \<open>uid\<close> of its own.
\<close>

definition scored_c1 :: "(string \<times> jv) list" where
  "scored_c1 =
     [(''candidate_id'', JStr ''c1''), (''skills_score'', JNum 90),
      (''experience_score'', JNum 85), (''education_score'', JNum 80),
      (''certifications_score'', JNum 70), (''total_score'', JNum 5),
      (''uid'', JStr ''mallory'')]"

definition new_job_file :: upload_file where
  "new_job_file = \<lparr>filename = ''new.pdf'', content = [7], content_type = ''application/pdf''\<rparr>"

section \<open>Notions used in the properties\<close>

text \<open>
  Every document of \<open>top_scores\<close> after a request either was there before it or carries
  the given owning-user identifier.
\<close>

definition written_by :: "string \<Rightarrow> db \<Rightarrow> db \<Rightarrow> bool" where
  "written_by uid st st' =
     list_all (\<lambda>d. d \<in> set (top_scores st) \<or> d ''uid'' = Some (JStr uid)) (top_scores st')"

text \<open>The key of a stored score: job, candidate, owning user.\<close>

definition score_key :: "doc \<Rightarrow> jv option \<times> jv option \<times> jv option" where
  "score_key d = (d ''jd_id'', d ''candidate_id'', d ''uid'')"

text \<open>Reading one field of every document of a list.\<close>

definition field :: "string \<Rightarrow> doc \<Rightarrow> jv option" where
  "field k d = d k"

text \<open>The composite score of a stored score (0 when the field is not a number).\<close>

definition total_of :: "doc \<Rightarrow> rat" where
  "total_of d = (case d ''total_score'' of Some (JNum x) \<Rightarrow> x | _ \<Rightarrow> 0)"

text \<open>
  Two stored scores of alice's job, with the composites 39.5 and 86, in the order they
  were written.
\<close>

definition stored_score :: "string \<Rightarrow> rat \<Rightarrow> doc" where
  "stored_score candidate_id t =
     [''uid'' \<mapsto> JStr ''alice'', ''candidate_id'' \<mapsto> JStr candidate_id, ''jd_id'' \<mapsto> JStr ''jd1'',
      ''name'' \<mapsto> JStr ''Ann'',
      ''skills_score'' \<mapsto> JNum 90, ''skills_explanation'' \<mapsto> JStr ''s'',
      ''experience_score'' \<mapsto> JNum 85, ''experience_explanation'' \<mapsto> JStr ''x'',
      ''education_score'' \<mapsto> JNum 80, ''education_explanation'' \<mapsto> JStr ''e'',
      ''certifications_score'' \<mapsto> JNum 70, ''certifications_explanation'' \<mapsto> JStr ''c'',
      ''total_score'' \<mapsto> JNum t]"

definition scored_db :: db where
  "scored_db = sample_db\<lparr>top_scores := [stored_score ''c2'' (79 / 2), stored_score ''c1'' 86]\<rparr>"

text \<open>
  A collection holds an upload of the given user with the given bytes: a document with
  that \<open>uid\<close> whose \<open>file_hash\<close> is the digest of the bytes.
\<close>

definition has_upload :: "env \<Rightarrow> string \<Rightarrow> bytes \<Rightarrow> doc list \<Rightarrow> bool" where
  "has_upload E uid bs coll =
     list_ex (\<lambda>d. d ''uid'' = Some (JStr uid) \<and> d ''file_hash'' = Some (JStr (sha256_hexdigest E bs))) coll"

text \<open>The keys of a parsed resume and of a parsed job description.\<close>

definition resume_keys :: "string set" where
  "resume_keys = {''professional_summary'', ''key_achievements'', ''projects'', ''certifications'',
     ''skills'', ''education'', ''experience'', ''designation'', ''location'', ''contact'',
     ''email'', ''name''}"

definition jd_keys :: "string set" where
  "jd_keys = {''description'', ''qualifications'', ''responsibilities'', ''preferred_skills'',
     ''required_skills'', ''experience_required'', ''job_type'', ''location'', ''company'',
     ''job_title''}"

text \<open>Files for the upload routes.\<close>

definition short_file :: upload_file where
  "short_file = \<lparr>filename = ''short.txt'', content = [8], content_type = ''text/plain''\<rparr>"

definition good_file :: upload_file where
  "good_file = \<lparr>filename = ''good.txt'', content = [7, 8, 9], content_type = ''text/plain''\<rparr>"

definition exe_file :: upload_file where
  "exe_file = \<lparr>filename = ''notes.exe'', content = [3], content_type = ''application/octet-stream''\<rparr>"

definition renamed_cv :: upload_file where
  "renamed_cv = \<lparr>filename = ''renamed.txt'', content = [1, 2], content_type = ''text/plain''\<rparr>"

definition renamed_exe :: upload_file where
  "renamed_exe = \<lparr>filename = ''cv.exe'', content = [1, 2], content_type = ''application/pdf''\<rparr>"

definition copy_job :: upload_file where
  "copy_job = \<lparr>filename = ''copy.bin'', content = [4, 5], content_type = ''application/pdf''\<rparr>"

definition text_job :: upload_file where
  "text_job = \<lparr>filename = ''job.txt'', content = [6], content_type = ''text/plain''\<rparr>"

section \<open>Properties of the match aggregator\<close>

lemmas store_defs = matches_def find_one_def find_docs_def insert_one_def update_one_upsert_def
  dict_get_def

lemmas sample_defs = sample_env_def sample_db_def job1_def cand1_def scored_c1_def new_job_file_def

lemmas scoring_defs = score_entry_def weighted_total_def score_data_def error_of_def
  resume_of_def candidates_query_def usable_scores_def field_def score_key_def

lemmas jd_upload_defs = upload_job_descriptions_def process_jd_file_def jd_extract_text_def
  parse_job_description_def parse_job_description_try_def jd_fallback_def bind_exn_def
  jd_data_def fan_out_def validates_def JobDescription_def field_ok_def endswith_def

lemma score_data_uid: "score_data sid jd cid now t score uid ''uid'' = Some (JStr uid)"
  by (simp add: score_data_def)

lemma score_data_total_score:
  "score_data sid jd cid now t score uid ''total_score'' =
     (case score ''total_score'' of None \<Rightarrow> Some (JNum t) | Some v \<Rightarrow> Some v)"
  by (simp add: score_data_def map_add_def split: option.splits)

lemma score_entry_uid:
  "score_entry u jd uid now e = Inr (Some (cid, sd)) \<Longrightarrow> sd ''uid'' = Some (JStr uid)"
  by (auto simp: score_entry_def score_data_def Let_def
      split: jv.splits if_splits sum.splits option.splits)

lemma set_first_mem:
  "d \<in> set (set_first q s coll) \<Longrightarrow> d \<in> set coll \<or> (\<exists>d0 \<in> set coll. d = d0 ++ s)"
  by (induction coll) (auto split: if_splits)

lemma update_one_upsert_mem:
  "d \<in> set (update_one_upsert q s coll) \<Longrightarrow> d \<in> set coll \<or> (\<exists>d0. d = d0 ++ s)"
  by (auto simp: update_one_upsert_def dest: set_first_mem split: if_splits)

lemma written_by_refl: "written_by uid st st"
  by (simp add: written_by_def list_all_iff)

lemma written_by_trans: "written_by uid a b \<Longrightarrow> written_by uid b c \<Longrightarrow> written_by uid a c"
  by (auto simp: written_by_def list_all_iff)

lemma store_scores_match_written:
  "store_scores_match u jd uid xs st = (st', r) \<Longrightarrow> written_by uid st st'"
proof (induction xs arbitrary: st)
  case Nil
  then show ?case by (simp add: written_by_refl)
next
  case (Cons x xs)
  show ?case
  proof (cases "score_entry u jd uid (clock st) x")
    case (Inl e)
    with Cons.prems show ?thesis by (simp add: written_by_refl)
  next
    case (Inr entry)
    show ?thesis
    proof (cases entry)
      case None
      with Inr Cons show ?thesis by simp
    next
      case (Some p)
      obtain cid sd where p: "p = (cid, sd)" by (cases p)
      let ?st1 = "st\<lparr>top_scores :=
                        update_one_upsert [(''jd_id'', Eq (JStr jd)), (''candidate_id'', Eq cid)] sd
                          (top_scores st),
                      clock := Suc (clock st)\<rparr>"
      from Cons.prems Inr Some p have run: "store_scores_match u jd uid xs ?st1 = (st', r)"
        by simp
      have sd: "sd ''uid'' = Some (JStr uid)"
        using Inr Some p score_entry_uid by blast
      have "written_by uid st ?st1"
        using sd by (auto simp: written_by_def list_all_iff map_add_def dest!: update_one_upsert_mem)
      then show ?thesis using Cons.IH[OF run] by (rule written_by_trans)
    qed
  qed
qed

lemma store_scores_upload_written:
  "store_scores_upload u jd uid xs st = (st', r) \<Longrightarrow> written_by uid st st'"
proof (induction xs arbitrary: st)
  case Nil
  then show ?case by (simp add: written_by_refl)
next
  case (Cons x xs)
  show ?case
  proof (cases "score_entry u jd uid (clock st) x")
    case (Inl e)
    with Cons.prems show ?thesis by (simp add: written_by_refl)
  next
    case (Inr entry)
    show ?thesis
    proof (cases entry)
      case None
      with Inr Cons show ?thesis by simp
    next
      case (Some p)
      obtain cid sd where p: "p = (cid, sd)" by (cases p)
      let ?st1 = "st\<lparr>top_scores := insert_one sd (top_scores st), clock := Suc (clock st)\<rparr>"
      from Cons.prems Inr Some p have run: "store_scores_upload u jd uid xs ?st1 = (st', r)"
        by simp
      have sd: "sd ''uid'' = Some (JStr uid)"
        using Inr Some p score_entry_uid by blast
      have "written_by uid st ?st1"
        using sd by (auto simp: written_by_def list_all_iff insert_one_def)
      then show ?thesis using Cons.IH[OF run] by (rule written_by_trans)
    qed
  qed
qed

lemma match_candidates_written:
  "written_by uid st (fst (match_candidates E jd_id cids uid st))"
  by (auto simp: match_candidates_def Let_def written_by_refl
      simp del: store_scores_match.simps
      split: option.splits sum.splits jv.splits list.splits prod.splits
      dest: store_scores_match_written)

lemma fan_out_written: "fan_out E jd_id jd_text uid st = (st', r) \<Longrightarrow> written_by uid st st'"
  by (auto simp: fan_out_def Let_def written_by_refl simp del: store_scores_upload.simps
      split: if_splits sum.splits dest: store_scores_upload_written)

lemma process_jd_file_written:
  "process_jd_file E uid file st = (st', out) \<Longrightarrow> written_by uid st st'"
  unfolding process_jd_file_def Let_def
  by (auto split: option.splits sum.splits if_splits prod.splits
      dest!: fan_out_written simp: written_by_def list_all_iff)

lemma upload_batch_written:
  assumes step: "\<And>file st st' out. step file st = (st', out) \<Longrightarrow> written_by uid st st'"
  shows "upload_batch step str files st created skipped = (st', skips, resp) \<Longrightarrow>
           written_by uid st st'"
proof (induction files arbitrary: st created skipped)
  case Nil
  then show ?case by (simp add: written_by_refl)
next
  case (Cons f fs)
  obtain st1 out where s: "step f st = (st1, out)" by (cases "step f st")
  have w: "written_by uid st st1" using step[OF s] .
  show ?case
  proof (cases out)
    case (Created c)
    with Cons.prems s
    have "upload_batch step str fs st1 (created @ [c]) skipped = (st', skips, resp)" by simp
    from Cons.IH[OF this] w show ?thesis by (blast intro: written_by_trans)
  next
    case (Skipped reason)
    with Cons.prems s
    have "upload_batch step str fs st1 created (skipped @ [(filename f, reason)]) = (st', skips, resp)"
      by simp
    from Cons.IH[OF this] w show ?thesis by (blast intro: written_by_trans)
  next
    case (Failed e)
    with Cons.prems s w show ?thesis by simp
  qed
qed

lemma upload_job_descriptions_written:
  "written_by uid st (fst (upload_job_descriptions E files uid st))"
proof -
  obtain st' skips resp where r: "upload_job_descriptions E files uid st = (st', skips, resp)"
    by (cases "upload_job_descriptions E files uid st")
  then have "upload_batch (process_jd_file E uid) (exn_str E) files st [] [] = (st', skips, resp)"
    by (simp add: upload_job_descriptions_def)
  then have "written_by uid st st'"
    by (rule upload_batch_written[rotated]) (rule process_jd_file_written)
  with r show ?thesis by simp
qed

text \<open>
  C10. Every MatchScore document written by either aggregation path has the caller's
  owning-user identifier in \<open>uid\<close>, whatever the scorer answered: the record that is
  built has it (the key is assigned after the scorer's fields), and after a match request
  and after a job upload every document of \<open>top_scores\<close> that was not there before
  carries the caller's \<open>uid\<close>.
\<close>

theorem written_scores_carry_caller_uid:
  "score_data score_id jd_id candidate_id now total_score score uid ''uid'' = Some (JStr uid)
   \<and> written_by uid st (fst (match_candidates E jd_id candidate_ids uid st))
   \<and> written_by uid st (fst (upload_job_descriptions E files uid st))"
  by (simp add: score_data_uid match_candidates_written upload_job_descriptions_written)

theorem written_scores_carry_caller_uid_witness:
  "written_by ''alice'' sample_db
     (fst (match_candidates (sample_env (JList [JObj scored_c1])) ''jd1'' None ''alice'' sample_db))
   \<and> map (field ''uid'')
        (top_scores (fst (match_candidates (sample_env (JList [JObj scored_c1])) ''jd1'' None
           ''alice'' sample_db))) = [Some (JStr ''alice'')]
   \<and> map_of scored_c1 ''uid'' = Some (JStr ''mallory'')"
  using written_scores_carry_caller_uid
    [where uid = "''alice''" and st = sample_db and E = "sample_env (JList [JObj scored_c1])"
       and jd_id = "''jd1''" and candidate_ids = None]
  by (simp add: match_candidates_def store_defs sample_defs scoring_defs Let_def)

text \<open>
  C1, the code at a scorer record that has a \<open>total_score\<close> of its own. The category
  scores 90, 85, 80 and 70 weigh to 86, and the scorer's record says 5: both the match
  request and the job upload store 5, because the scorer's fields are spread into the
  stored record after the computed total (only \<open>uid\<close> comes after them).
\<close>

theorem scorer_total_score_replaces_computed_total:
  "weighted_total (map_of scored_c1) = Inr 86
   \<and> map (field ''total_score'')
        (top_scores (fst (match_candidates (sample_env (JList [JObj scored_c1])) ''jd1'' None
           ''alice'' sample_db))) = [Some (JNum 5)]
   \<and> map (field ''total_score'')
        (top_scores (fst (upload_job_descriptions (sample_env (JList [JObj scored_c1]))
           [new_job_file] ''alice'' sample_db))) = [Some (JNum 5)]"
  by (simp add: match_candidates_def jd_upload_defs store_defs sample_defs scoring_defs Let_def)

text \<open>
  C2, the code at a scorer answer that holds two records for the same candidate. The job
  upload inserts both: \<open>top_scores\<close> then has two documents for the same job, candidate
  and owning user. The match request, which writes with an upsert, keeps one.
\<close>

theorem job_upload_inserts_second_row_for_pair:
  "map score_key
     (top_scores (fst (upload_job_descriptions (sample_env (JList [JObj scored_c1, JObj scored_c1]))
        [new_job_file] ''alice'' sample_db)))
     = [(Some (JStr ''id-i''), Some (JStr ''c1''), Some (JStr ''alice'')),
        (Some (JStr ''id-i''), Some (JStr ''c1''), Some (JStr ''alice''))]
   \<and> map score_key
        (top_scores (fst (match_candidates (sample_env (JList [JObj scored_c1, JObj scored_c1]))
           ''jd1'' None ''alice'' sample_db)))
     = [(Some (JStr ''jd1''), Some (JStr ''c1''), Some (JStr ''alice''))]"
  by (simp add: match_candidates_def jd_upload_defs store_defs sample_defs scoring_defs Let_def)

section \<open>Properties of the download routes\<close>

text \<open>
  C3, the code at a download request for another user's record. The candidate \<open>c1\<close> and
  the job \<open>jd1\<close> belong to alice. Bob's download requests return alice's stored files;
  the sibling route that reads the candidate record answers bob with 404.
\<close>

theorem download_returns_other_users_file:
  "download_candidate_resume (sample_env JNull) ''c1'' ''bob'' sample_db
     = Inr \<lparr>media_type = ''application/pdf'', inline_filename = ''cv.pdf'', body = [1, 2]\<rparr>
   \<and> download_job_description (sample_env JNull) ''jd1'' ''bob'' sample_db
     = Inr \<lparr>media_type = ''application/pdf'', inline_filename = ''job.pdf'', body = [4, 5]\<rparr>
   \<and> get_candidate (sample_env JNull) ''c1'' ''bob'' sample_db
     = Inl (HTTPError 404 ''Candidate not found'')
   \<and> field ''uid'' cand1 = Some (JStr ''alice'') \<and> field ''uid'' job1 = Some (JStr ''alice'')"
  by (simp add: download_candidate_resume_def download_job_description_def get_candidate_def
      stream_file_def download_media_type_def endswith_def lower_def lower_char_def field_def
      store_defs sample_defs Let_def)

section \<open>Properties of the top-matches query\<close>

lemmas top_defs = get_top_matches_def sort_descending_def total_score_key_def apply_limit_def
  validates_def CandidateScore_def field_ok_def stored_score_def scored_db_def
  internal_server_error_def

lemma set_apply_limit: "set (apply_limit E n ds) \<subseteq> set ds"
  by (auto simp: apply_limit_def dest: in_set_takeD)

lemma set_sort_descending: "set (sort_descending ds) = set ds"
  by (simp add: sort_descending_def)

lemma sorted_sort_descending:
  "sorted_wrt (\<lambda>a b. total_score_key b \<le> total_score_key a) (sort_descending ds)"
proof -
  have "sorted (map total_score_key (sort_key total_score_key ds))"
    by (rule sorted_sort_key)
  then have "sorted_wrt (\<lambda>a b. total_score_key a \<le> total_score_key b) (sort_key total_score_key ds)"
    by (simp add: sorted_map)
  then show ?thesis
    by (simp add: sort_descending_def sorted_wrt_rev)
qed

lemma sorted_apply_limit: "sorted_wrt P ds \<Longrightarrow> sorted_wrt P (apply_limit E n ds)"
  by (simp add: apply_limit_def sorted_wrt_take)

lemma length_apply_limit: "0 < n \<Longrightarrow> length (apply_limit E n ds) \<le> nat n"
  by (simp add: apply_limit_def)

text \<open>A document that passed the filter and the model has a number as \<open>total_score\<close>.\<close>

lemma validated_total:
  assumes "validates E CandidateScore r" and "gte_match (r ''total_score'') m"
  shows "\<exists>x. r ''total_score'' = Some (JNum x) \<and> m \<le> x"
proof -
  from assms(1) have "field_ok E r (''total_score'', TOptFloat)"
    by (simp add: validates_def CandidateScore_def)
  then have "exact TOptFloat (r ''total_score'')"
    by (auto simp: field_ok_def split: option.splits)
  with assms(2) show ?thesis
    by (auto split: option.splits jv.splits)
qed

lemma matches_gte:
  "matches [(''jd_id'', Eq a), (''uid'', Eq b), (''total_score'', Gte m)] r \<Longrightarrow>
     gte_match (r ''total_score'') m"
  by (simp add: matches_def)

lemma total_score_key_num: "d ''total_score'' = Some (JNum x) \<Longrightarrow> total_score_key d = (1, x)"
  by (simp add: total_score_key_def)

lemma get_top_matches_not_found:
  "find_one [(''jd_id'', Eq (JStr jd_id)), (''uid'', Eq (JStr uid))] (job_descriptions st) = None \<Longrightarrow>
     get_top_matches E jd_id m limit uid st = Inl (HTTPError 404 ''Job description not found'')"
  by (simp add: get_top_matches_def)

lemma get_top_matches_returned:
  assumes "get_top_matches E jd_id m limit uid st = Inr rs"
  shows "find_one [(''jd_id'', Eq (JStr jd_id)), (''uid'', Eq (JStr uid))] (job_descriptions st) \<noteq> None"
    and "list_all (\<lambda>r. \<exists>x. r ''total_score'' = Some (JNum x) \<and> m \<le> x) rs"
    and "sorted_wrt (\<ge>) (map total_of rs)"
    and "0 < limit \<Longrightarrow> length rs \<le> nat limit"
proof -
  let ?q = "[(''jd_id'', Eq (JStr jd_id)), (''uid'', Eq (JStr uid)), (''total_score'', Gte m)]"
  let ?found = "sort_descending (find_docs ?q (top_scores st))"
  from assms
  show "find_one [(''jd_id'', Eq (JStr jd_id)), (''uid'', Eq (JStr uid))] (job_descriptions st) \<noteq> None"
    by (auto simp: get_top_matches_def split: option.splits)
  from assms have rs: "rs = apply_limit E limit ?found"
    and valid: "list_all (validates E CandidateScore) rs"
    by (auto simp: get_top_matches_def Let_def split: option.splits if_splits)
  have sub: "set rs \<subseteq> set (find_docs ?q (top_scores st))"
    using set_apply_limit[of E limit ?found] by (simp add: rs set_sort_descending)
  have num: "\<exists>x. r ''total_score'' = Some (JNum x) \<and> m \<le> x" if "r \<in> set rs" for r
  proof -
    from that sub have "matches ?q r" by (auto simp: find_docs_def)
    then have "gte_match (r ''total_score'') m" by (rule matches_gte)
    moreover from that valid have "validates E CandidateScore r" by (simp add: list_all_iff)
    ultimately show ?thesis by (rule validated_total[rotated])
  qed
  then show "list_all (\<lambda>r. \<exists>x. r ''total_score'' = Some (JNum x) \<and> m \<le> x) rs"
    by (simp add: list_all_iff)
  have "sorted_wrt (\<lambda>a b. total_score_key b \<le> total_score_key a) rs"
    unfolding rs by (rule sorted_apply_limit) (rule sorted_sort_descending)
  then have "sorted_wrt (\<lambda>a b. total_of b \<le> total_of a) rs"
  proof (rule sorted_wrt_mono_rel[rotated])
    fix a b
    assume "a \<in> set rs" "b \<in> set rs" "total_score_key b \<le> total_score_key a"
    moreover from num[OF \<open>a \<in> set rs\<close>] obtain x where "a ''total_score'' = Some (JNum x)"
      by blast
    moreover from num[OF \<open>b \<in> set rs\<close>] obtain y where "b ''total_score'' = Some (JNum y)"
      by blast
    ultimately show "total_of b \<le> total_of a"
      by (simp add: total_score_key_num total_of_def)
  qed
  then show "sorted_wrt (\<ge>) (map total_of rs)"
    by (simp add: sorted_wrt_map)
  show "length rs \<le> nat limit" if "0 < limit"
    using that by (simp add: rs length_apply_limit)
qed

text \<open>
  C4 as stated fails at the limit 0, which the store reads as "no limit": both stored
  scores of the job are returned.
\<close>

theorem top_matches_limit_zero_counterexample:
  "get_top_matches (sample_env JNull) ''jd1'' 0 0 ''alice'' scored_db
     = Inr [stored_score ''c1'' 86, stored_score ''c2'' (79 / 2)]
   \<and> \<not> int (length [stored_score ''c1'' 86, stored_score ''c2'' (79 / 2)]) \<le> 0"
  by (simp add: top_defs store_defs sample_defs Let_def)

text \<open>
  C4, amended. For every call of the top-matches query with a job id, a minimum score
  and a limit: when no job with that id is owned by the caller, the call fails with the
  404 error and returns nothing; and whenever the call returns a list, such a job exists,
  every returned record has a composite score that is at least the minimum (inclusive),
  the list is sorted non-increasing by composite score, and it has at most \<open>limit\<close>
  entries when the limit is positive.
\<close>

theorem top_matches_contract:
  "(find_one [(''jd_id'', Eq (JStr jd_id)), (''uid'', Eq (JStr uid))] (job_descriptions st) = None
      \<longrightarrow> get_top_matches E jd_id min_score limit uid st
            = Inl (HTTPError 404 ''Job description not found''))
   \<and> (get_top_matches E jd_id min_score limit uid st = Inr rs
      \<longrightarrow> find_one [(''jd_id'', Eq (JStr jd_id)), (''uid'', Eq (JStr uid))] (job_descriptions st) \<noteq> None
          \<and> list_all (\<lambda>r. \<exists>x. r ''total_score'' = Some (JNum x) \<and> min_score \<le> x) rs
          \<and> sorted_wrt (\<ge>) (map total_of rs)
          \<and> (0 < limit \<longrightarrow> length rs \<le> nat limit))"
proof (intro conjI impI)
  assume "find_one [(''jd_id'', Eq (JStr jd_id)), (''uid'', Eq (JStr uid))] (job_descriptions st) = None"
  then show "get_top_matches E jd_id min_score limit uid st
               = Inl (HTTPError 404 ''Job description not found'')"
    by (rule get_top_matches_not_found)
next
  assume r: "get_top_matches E jd_id min_score limit uid st = Inr rs"
  from r show "find_one [(''jd_id'', Eq (JStr jd_id)), (''uid'', Eq (JStr uid))] (job_descriptions st) \<noteq> None"
    by (rule get_top_matches_returned(1))
  from r show "list_all (\<lambda>r. \<exists>x. r ''total_score'' = Some (JNum x) \<and> min_score \<le> x) rs"
    by (rule get_top_matches_returned(2))
  from r show "sorted_wrt (\<ge>) (map total_of rs)"
    by (rule get_top_matches_returned(3))
  show "length rs \<le> nat limit" if "0 < limit"
    using r that by (rule get_top_matches_returned(4))
qed

theorem top_matches_contract_witness:
  "get_top_matches (sample_env JNull) ''jd1'' 50 10 ''alice'' scored_db = Inr [stored_score ''c1'' 86]
   \<and> list_all (\<lambda>r. \<exists>x. r ''total_score'' = Some (JNum x) \<and> 50 \<le> x) [stored_score ''c1'' 86]
   \<and> sorted_wrt (\<ge>) (map total_of [stored_score ''c1'' 86])
   \<and> length [stored_score ''c1'' 86] \<le> nat 10
   \<and> find_one [(''jd_id'', Eq (JStr ''jd1'')), (''uid'', Eq (JStr ''bob''))] (job_descriptions scored_db) = None
   \<and> get_top_matches (sample_env JNull) ''jd1'' 50 10 ''bob'' scored_db
       = Inl (HTTPError 404 ''Job description not found'')"
proof -
  have run: "get_top_matches (sample_env JNull) ''jd1'' 50 10 ''alice'' scored_db
               = Inr [stored_score ''c1'' 86]"
    by (simp add: top_defs store_defs sample_defs Let_def)
  have nojob: "find_one [(''jd_id'', Eq (JStr ''jd1'')), (''uid'', Eq (JStr ''bob''))]
                 (job_descriptions scored_db) = None"
    by (simp add: scored_db_def store_defs sample_defs)
  have pos: "(0::int) < 10" by simp
  from run pos
    top_matches_contract[where E = "sample_env JNull" and jd_id = "''jd1''" and uid = "''alice''"
      and st = scored_db and min_score = 50 and limit = 10 and rs = "[stored_score ''c1'' 86]"]
  have "list_all (\<lambda>r. \<exists>x. r ''total_score'' = Some (JNum x) \<and> 50 \<le> x) [stored_score ''c1'' 86]
        \<and> sorted_wrt (\<ge>) (map total_of [stored_score ''c1'' 86])
        \<and> length [stored_score ''c1'' 86] \<le> nat 10"
    by blast
  moreover from nojob
    top_matches_contract[where E = "sample_env JNull" and jd_id = "''jd1''" and uid = "''bob''"
      and st = scored_db and min_score = 50 and limit = 10]
  have "get_top_matches (sample_env JNull) ''jd1'' 50 10 ''bob'' scored_db
          = Inl (HTTPError 404 ''Job description not found'')"
    by blast
  ultimately show ?thesis using run nojob by blast
qed

section \<open>Properties of the parser and of the upload routes\<close>

lemma bind_exnE:
  assumes "bind_exn m f = Inr y"
  obtains x where "m = Inr x" and "f x = Inr y"
  using assms by (cases m) (auto simp: bind_exn_def)

lemma dom_clean: "clean_and_validate_data E p = Inr d \<Longrightarrow> dom d = resume_keys"
  unfolding clean_and_validate_data_def Let_def
  apply (cases p; simp)
  apply (elim bind_exnE)
  apply (clarsimp simp add: resume_keys_def)
  done

lemma dom_resume_fallback: "dom (resume_fallback E e) = resume_keys"
  by (simp add: resume_fallback_def resume_keys_def)

lemma dom_parse_resume: "dom (parse_resume E t) = resume_keys"
proof (cases "parse_resume_try E t")
  case (Inl e)
  then show ?thesis by (simp add: parse_resume_def dom_resume_fallback)
next
  case (Inr d)
  then have "dom d = resume_keys"
    unfolding parse_resume_try_def by (elim bind_exnE) (rule dom_clean)
  with Inr show ?thesis by (simp add: parse_resume_def)
qed

lemma dom_jd_fields: "jd_fields p = Inr d \<Longrightarrow> dom d = jd_keys"
  unfolding jd_fields_def Let_def
  by (cases p) (simp_all add: jd_keys_def, force)

lemma dom_jd_fallback: "dom (jd_fallback E e) = jd_keys"
  by (simp add: jd_fallback_def jd_keys_def)

lemma dom_parse_jd: "dom (parse_job_description E t) = jd_keys"
proof (cases "parse_job_description_try E t")
  case (Inl e)
  then show ?thesis by (simp add: parse_job_description_def dom_jd_fallback)
next
  case (Inr d)
  then have "dom d = jd_keys"
    unfolding parse_job_description_try_def by (elim bind_exnE) (rule dom_jd_fields)
  with Inr show ?thesis by (simp add: parse_job_description_def)
qed

lemma find_one_None_iff: "find_one q coll = None \<longleftrightarrow> \<not> list_ex (matches q) coll"
  by (auto simp: find_one_def find_None_iff list_ex_iff)

lemma has_upload_found:
  assumes "has_upload E uid bs coll"
  shows "find_one [(''uid'', Eq (JStr uid)), (''file_hash'', Eq (JStr (sha256_hexdigest E bs)))] coll \<noteq> None"
proof -
  from assms obtain d where d: "d \<in> set coll" "d ''uid'' = Some (JStr uid)"
    "d ''file_hash'' = Some (JStr (sha256_hexdigest E bs))"
    by (auto simp: has_upload_def list_ex_iff)
  then have "matches [(''uid'', Eq (JStr uid)), (''file_hash'', Eq (JStr (sha256_hexdigest E bs)))] d"
    by (simp add: matches_def)
  with d(1) show ?thesis
    by (auto simp: find_one_None_iff list_ex_iff)
qed

lemma candidate_skip:
  "has_upload E uid (content file) (candidates st) \<Longrightarrow> is_supported_file (filename file) \<Longrightarrow>
   process_candidate_file E uid file st = (st, Skipped ''Duplicate file - same content already uploaded'')"
  by (auto simp: process_candidate_file_def Let_def dest!: has_upload_found split: option.splits)

lemma jd_skip:
  "has_upload E uid (content file) (job_descriptions st) \<Longrightarrow>
   process_jd_file E uid file st = (st, Skipped ''Duplicate file - same content already uploaded'')"
  by (auto simp: process_jd_file_def Let_def dest!: has_upload_found split: option.splits)

lemma candidate_data_keys:
  "dom parsed = resume_keys \<Longrightarrow>
     candidate_data cid uid fid h name now parsed ''uid'' = Some (JStr uid)
   \<and> candidate_data cid uid fid h name now parsed ''file_hash'' = Some (JStr h)"
  by (simp add: candidate_data_def map_add_dom_app_simps resume_keys_def)

lemma process_candidate_file_Created:
  assumes "process_candidate_file E uid g st = (st', Created c)"
  shows "\<exists>t. c = candidate_data (uuid4 E (Suc (clock st))) uid (object_id E (clock st))
                 (sha256_hexdigest E (content g)) (filename g) (Suc (clock st)) (parse_resume E t)
           \<and> extract_text_from_upload E g = Inr t
           \<and> candidates st' = insert_one c (candidates st)"
  using assms unfolding process_candidate_file_def Let_def
  by (simp split: if_splits option.splits sum.splits) force+

lemma store_scores_upload_frame:
  "store_scores_upload u jd uid xs st = (st', r) \<Longrightarrow>
     candidates st' = candidates st \<and> job_descriptions st' = job_descriptions st \<and> gridfs st' = gridfs st"
proof (induction xs arbitrary: st)
  case Nil
  then show ?case by auto
next
  case (Cons x xs)
  show ?case
  proof (cases "score_entry u jd uid (clock st) x")
    case (Inl e)
    with Cons.prems show ?thesis by auto
  next
    case (Inr entry)
    show ?thesis
    proof (cases entry)
      case None
      with Inr Cons show ?thesis by simp
    next
      case (Some p)
      obtain cid sd where p: "p = (cid, sd)" by (cases p)
      let ?st1 = "st\<lparr>top_scores := insert_one sd (top_scores st), clock := Suc (clock st)\<rparr>"
      from Cons.prems Inr Some p have "store_scores_upload u jd uid xs ?st1 = (st', r)" by simp
      from Cons.IH[OF this] show ?thesis by simp
    qed
  qed
qed

lemma fan_out_frame:
  "fan_out E jd_id jd_text uid st = (st', r) \<Longrightarrow>
     candidates st' = candidates st \<and> job_descriptions st' = job_descriptions st \<and> gridfs st' = gridfs st"
  unfolding fan_out_def Let_def
  by (auto simp del: store_scores_upload.simps split: if_splits sum.splits
      dest: store_scores_upload_frame)

lemma process_jd_file_Created:
  assumes "process_jd_file E uid g st = (st', Created c)"
  shows "\<exists>t. c = jd_data (uuid4 E (Suc (clock st))) uid (object_id E (clock st))
                 (sha256_hexdigest E (content g)) (filename g) (Suc (clock st))
                 (parse_job_description E t)
           \<and> jd_extract_text E g = Inr t
           \<and> job_descriptions st' = insert_one c (job_descriptions st)"
  using assms unfolding process_jd_file_def Let_def
  by (simp split: if_splits option.splits sum.splits prod.splits) (force dest: fan_out_frame)+

lemma jd_data_keys:
  "dom parsed = jd_keys \<Longrightarrow>
     jd_data jid uid fid h name now parsed ''uid'' = Some (JStr uid)
   \<and> jd_data jid uid fid h name now parsed ''file_hash'' = Some (JStr h)
   \<and> jd_data jid uid fid h name now parsed ''jd_filename'' = Some (JStr name)"
  by (simp add: jd_data_def map_add_dom_app_simps jd_keys_def)

lemma candidate_created_has_upload:
  assumes "process_candidate_file E uid g st = (st', Created c)"
  shows "has_upload E uid (content g) (candidates st')"
proof -
  from process_candidate_file_Created[OF assms] obtain t where
    c: "c = candidate_data (uuid4 E (Suc (clock st))) uid (object_id E (clock st))
                 (sha256_hexdigest E (content g)) (filename g) (Suc (clock st)) (parse_resume E t)"
    and st': "candidates st' = insert_one c (candidates st)"
    by blast
  have "c ''uid'' = Some (JStr uid) \<and> c ''file_hash'' = Some (JStr (sha256_hexdigest E (content g)))"
    unfolding c by (rule candidate_data_keys) (rule dom_parse_resume)
  then show ?thesis
    by (simp add: has_upload_def st' insert_one_def)
qed

lemma jd_created_has_upload:
  assumes "process_jd_file E uid g st = (st', Created c)"
  shows "has_upload E uid (content g) (job_descriptions st')"
proof -
  from process_jd_file_Created[OF assms] obtain t where
    c: "c = jd_data (uuid4 E (Suc (clock st))) uid (object_id E (clock st))
                 (sha256_hexdigest E (content g)) (filename g) (Suc (clock st))
                 (parse_job_description E t)"
    and st': "job_descriptions st' = insert_one c (job_descriptions st)"
    by blast
  have "c ''uid'' = Some (JStr uid) \<and> c ''file_hash'' = Some (JStr (sha256_hexdigest E (content g)))"
    unfolding c using jd_data_keys[OF dom_parse_jd] by blast
  then show ?thesis
    by (simp add: has_upload_def st' insert_one_def)
qed

lemma has_upload_mono: "has_upload E uid bs coll \<Longrightarrow> set coll \<subseteq> set coll' \<Longrightarrow> has_upload E uid bs coll'"
  by (auto simp: has_upload_def list_ex_iff)

lemma candidate_unsupported:
  "\<not> is_supported_file (filename file) \<Longrightarrow>
     process_candidate_file E uid file st =
       (st, Failed (HTTPException 400 (''Unsupported file format: '' @ filename file
              @ ''. Supported: PDF, DOCX, TXT, JPG, PNG'')))"
  by (simp add: process_candidate_file_def)

lemma jd_unsupported:
  "find_one [(''uid'', Eq (JStr uid)), (''file_hash'', Eq (JStr (sha256_hexdigest E (content file))))]
      (job_descriptions st) = None \<Longrightarrow>
   \<not> endswith (filename file) ''.pdf'' \<Longrightarrow> \<not> endswith (filename file) ''.docx'' \<Longrightarrow>
     process_jd_file E uid file st =
       (st, Failed (HTTPException 400 ''Unsupported file format. Use PDF or DOCX''))"
  by (simp add: process_jd_file_def jd_extract_text_def)

lemma candidate_insufficient:
  "is_supported_file (filename file) \<Longrightarrow>
   find_one [(''uid'', Eq (JStr uid)), (''file_hash'', Eq (JStr (sha256_hexdigest E (content file))))]
      (candidates st) = None \<Longrightarrow>
   extract_text_from_upload E file = Inr resume_text \<Longrightarrow>
   resume_text = [] \<or> length (strip resume_text) < 50 \<Longrightarrow>
     process_candidate_file E uid file st =
       (st, Failed (HTTPException 400 (''Could not extract sufficient text from '' @ filename file
              @ ''. Please ensure the file is readable.'')))"
  by (auto simp add: process_candidate_file_def)

lemma fallback_validates:
  "validates E Candidate (candidate_data cid uid fid h name now (resume_fallback E e))"
  by (simp add: validates_def Candidate_def field_ok_def candidate_data_def resume_fallback_def map_add_def)

lemma jd_fallback_validates:
  "validates E JobDescription (jd_data jid uid fid h name now (jd_fallback E e))"
  by (simp add: validates_def JobDescription_def field_ok_def jd_data_def jd_fallback_def map_add_def)

lemma candidate_parse_failure:
  assumes "is_supported_file (filename file)"
    and "find_one [(''uid'', Eq (JStr uid)), (''file_hash'', Eq (JStr (sha256_hexdigest E (content file))))]
           (candidates st) = None"
    and "extract_text_from_upload E file = Inr t" and "t \<noteq> []" and "\<not> length (strip t) < 50"
    and "parse_resume_try E t = Inl e"
  shows "process_candidate_file E uid file st =
     (st\<lparr>gridfs := (gridfs st)(object_id E (clock st) \<mapsto> content file),
         candidates := insert_one
           (candidate_data (uuid4 E (Suc (clock st))) uid (object_id E (clock st))
              (sha256_hexdigest E (content file)) (filename file) (Suc (clock st)) (resume_fallback E e))
           (candidates st),
         clock := Suc (Suc (clock st))\<rparr>,
      Created (candidate_data (uuid4 E (Suc (clock st))) uid (object_id E (clock st))
              (sha256_hexdigest E (content file)) (filename file) (Suc (clock st)) (resume_fallback E e)))"
proof -
  have p: "parse_resume E t = resume_fallback E e"
    using assms(6) by (simp add: parse_resume_def)
  have em: "dict_get (resume_fallback E e) ''email'' JNull = JNull"
    "dict_get (resume_fallback E e) ''skills'' (JList []) = JList []"
    by (simp_all add: dict_get_def resume_fallback_def)
  show ?thesis
    using assms(1-5) by (simp add: process_candidate_file_def Let_def p em fallback_validates)
qed

lemma jd_parse_failure:
  assumes "find_one [(''uid'', Eq (JStr uid)), (''file_hash'', Eq (JStr (sha256_hexdigest E (content file))))]
           (job_descriptions st) = None"
    and "jd_extract_text E file = Inr t"
    and "parse_job_description_try E t = Inl e"
  shows "process_jd_file E uid file st =
     (let stored = jd_data (uuid4 E (Suc (clock st))) uid (object_id E (clock st))
              (sha256_hexdigest E (content file)) (filename file) (Suc (clock st)) (jd_fallback E e);
          st2 = st\<lparr>gridfs := (gridfs st)(object_id E (clock st) \<mapsto> content file),
                   job_descriptions := insert_one stored (job_descriptions st),
                   clock := Suc (Suc (clock st))\<rparr>
      in case fan_out E (uuid4 E (Suc (clock st))) t uid st2 of
           (st3, Some e') \<Rightarrow> (st3, Failed e')
         | (st3, None) \<Rightarrow> (st3, Created stored))"
proof -
  have p: "parse_job_description E t = jd_fallback E e"
    using assms(3) by (simp add: parse_job_description_def)
  have em: "dict_get (jd_fallback E e) ''company'' JNull = JStr []"
    by (simp add: dict_get_def jd_fallback_def)
  show ?thesis
    using assms(1-2) by (simp add: process_jd_file_def Let_def p em jd_fallback_validates)
qed

lemma list_all_ex_Cons:
  "list_all (\<lambda>r. list_ex (Q r) fs) xs \<Longrightarrow> list_all (\<lambda>r. list_ex (Q r) (f # fs)) xs"
  by (auto simp: list_all_iff list_ex_iff)

lemma upload_batch_Inr:
  assumes step: "\<And>f s s' c. step f s = (s', Created c) \<Longrightarrow> P f c"
  shows "upload_batch step str files st created skipped = (st', skips, Inr rs) \<Longrightarrow>
     \<exists>new news. rs = created @ new \<and> skips = skipped @ news
        \<and> length new + length news = length files
        \<and> list_all (\<lambda>r. list_ex (\<lambda>f. P f r) files) new
        \<and> list_all (\<lambda>s. list_ex (\<lambda>f. fst s = filename f) files) news"
proof (induction files arbitrary: st created skipped)
  case Nil
  then show ?case by simp
next
  case (Cons f fs)
  obtain st1 out where s: "step f st = (st1, out)" by (cases "step f st")
  show ?case
  proof (cases out)
    case (Created c)
    with Cons.prems s
    have "upload_batch step str fs st1 (created @ [c]) skipped = (st', skips, Inr rs)" by simp
    from Cons.IH[OF this] obtain new news where
      n: "rs = (created @ [c]) @ new" "skips = skipped @ news" "length new + length news = length fs"
        "list_all (\<lambda>r. list_ex (\<lambda>f. P f r) fs) new"
        "list_all (\<lambda>s. list_ex (\<lambda>f. fst s = filename f) fs) news"
      by blast
    have c: "P f c" using step s Created by blast
    have "rs = created @ (c # new)" using n(1) by simp
    moreover have "length (c # new) + length news = length (f # fs)" using n(3) by simp
    moreover have "list_all (\<lambda>r. list_ex (\<lambda>f. P f r) (f # fs)) (c # new)"
      using c list_all_ex_Cons[OF n(4), of f] by simp
    moreover have "list_all (\<lambda>s. list_ex (\<lambda>f. fst s = filename f) (f # fs)) news"
      using list_all_ex_Cons[OF n(5), of f] by simp
    ultimately show ?thesis using n(2) by blast
  next
    case (Skipped reason)
    with Cons.prems s
    have "upload_batch step str fs st1 created (skipped @ [(filename f, reason)]) = (st', skips, Inr rs)"
      by simp
    from Cons.IH[OF this] obtain new news where
      n: "rs = created @ new" "skips = (skipped @ [(filename f, reason)]) @ news"
        "length new + length news = length fs"
        "list_all (\<lambda>r. list_ex (\<lambda>f. P f r) fs) new"
        "list_all (\<lambda>s. list_ex (\<lambda>f. fst s = filename f) fs) news"
      by blast
    have "skips = skipped @ ((filename f, reason) # news)" using n(2) by simp
    moreover have "length new + length ((filename f, reason) # news) = length (f # fs)"
      using n(3) by simp
    moreover have "list_all (\<lambda>r. list_ex (\<lambda>f. P f r) (f # fs)) new"
      using list_all_ex_Cons[OF n(4), of f] by simp
    moreover have "list_all (\<lambda>s. list_ex (\<lambda>f. fst s = filename f) (f # fs)) ((filename f, reason) # news)"
      using list_all_ex_Cons[OF n(5), of f] by simp
    ultimately show ?thesis using n(1) by blast
  next
    case (Failed e)
    with Cons.prems s show ?thesis by simp
  qed
qed

lemma jd_created_fields:
  assumes "process_jd_file E uid f s = (s', Created c)"
  shows "c ''uid'' = Some (JStr uid) \<and> c ''jd_filename'' = Some (JStr (filename f))"
proof -
  from process_jd_file_Created[OF assms] obtain t where
    c: "c = jd_data (uuid4 E (Suc (clock s))) uid (object_id E (clock s))
                 (sha256_hexdigest E (content f)) (filename f) (Suc (clock s))
                 (parse_job_description E t)"
    by blast
  show ?thesis unfolding c using jd_data_keys[OF dom_parse_jd] by blast
qed

lemma jd_response:
  assumes "upload_job_descriptions E files uid st = (st', skips, Inr rs)"
  shows "length rs + length skips = length files"
    and "list_all (\<lambda>r. list_ex (\<lambda>f. r ''uid'' = Some (JStr uid) \<and> r ''jd_filename'' = Some (JStr (filename f))) files) rs"
    and "list_all (\<lambda>s. list_ex (\<lambda>f. fst s = filename f) files) skips"
proof -
  from assms have "upload_batch (process_jd_file E uid) (exn_str E) files st [] [] = (st', skips, Inr rs)"
    by (simp add: upload_job_descriptions_def)
  from upload_batch_Inr[where P = "\<lambda>f r. r ''uid'' = Some (JStr uid) \<and> r ''jd_filename'' = Some (JStr (filename f))", OF _ this]
    jd_created_fields
  obtain new news where "rs = [] @ new" "skips = [] @ news" "length new + length news = length files"
    "list_all (\<lambda>r. list_ex (\<lambda>f. r ''uid'' = Some (JStr uid) \<and> r ''jd_filename'' = Some (JStr (filename f))) files) new"
    "list_all (\<lambda>s. list_ex (\<lambda>f. fst s = filename f) files) news"
    by blast
  then show "length rs + length skips = length files"
    and "list_all (\<lambda>r. list_ex (\<lambda>f. r ''uid'' = Some (JStr uid) \<and> r ''jd_filename'' = Some (JStr (filename f))) files) rs"
    and "list_all (\<lambda>s. list_ex (\<lambda>f. fst s = filename f) files) skips"
    by simp_all
qed

lemmas file_defs = short_file_def good_file_def exe_file_def renamed_cv_def renamed_exe_def
  copy_job_def text_job_def

lemmas candidate_upload_defs = upload_candidates_def process_candidate_file_def
  is_supported_file_def endswith_def lower_def lower_char_def extract_text_from_upload_def
  strip_def isspace_def parse_resume_def parse_resume_try_def resume_fallback_def bind_exn_def
  candidate_data_def validates_def Candidate_def field_ok_def has_upload_def

subsection \<open>Duplicate content\<close>

text \<open>
  C5 as stated fails for a candidate upload whose file name has no supported extension:
  the bytes of \<open>cv.exe\<close> are those of alice's stored upload, and the request ends with
  the 500 error for the unsupported format; nothing is put on the skip list.
\<close>

theorem duplicate_content_unsupported_name_counterexample:
  "has_upload (sample_env JNull) ''alice'' (content renamed_exe) (candidates sample_db)
   \<and> upload_candidates (sample_env JNull) [renamed_exe] ''alice'' sample_db
     = (sample_db, [],
        Inl (HTTPError 500 ''Error processing cv.exe: Unsupported file format: cv.exe. Supported: PDF, DOCX, TXT, JPG, PNG''))"
  by (simp add: candidate_upload_defs file_defs store_defs sample_defs Let_def)

text \<open>
  C5, amended. When the processing of a batch reaches a file whose bytes are those of an
  upload of the same owning user that is stored (a record with that user and the digest
  of the bytes), the file is skipped with the duplicate-content reason, the skip is put
  on the skip list, nothing else changes, and processing goes on with the remaining
  files: in a job-description upload whatever the file name is, in a candidate upload
  when the file name has a supported extension. Every accepted upload stores a record
  with the owning user and the digest of its bytes, the digest being a function of the
  bytes alone.
\<close>

theorem duplicate_content_is_skipped:
  "(has_upload E uid (content upload) (candidates st) \<and> is_supported_file (filename upload) \<longrightarrow>
      upload_batch (process_candidate_file E uid) str (upload # uploads) st created skipped
        = upload_batch (process_candidate_file E uid) str uploads st created
            (skipped @ [(filename upload, ''Duplicate file - same content already uploaded'')]))
   \<and> (has_upload E uid (content upload) (job_descriptions st) \<longrightarrow>
      upload_batch (process_jd_file E uid) str (upload # uploads) st created skipped
        = upload_batch (process_jd_file E uid) str uploads st created
            (skipped @ [(filename upload, ''Duplicate file - same content already uploaded'')]))
   \<and> (process_candidate_file E uid g st = (st', Created c) \<longrightarrow>
        has_upload E uid (content g) (candidates st'))
   \<and> (process_jd_file E uid g st = (st', Created c) \<longrightarrow>
        has_upload E uid (content g) (job_descriptions st'))"
  by (simp add: candidate_skip jd_skip candidate_created_has_upload jd_created_has_upload)

theorem duplicate_content_is_skipped_witness:
  "has_upload (sample_env JNull) ''alice'' (content renamed_cv) (candidates sample_db)
   \<and> is_supported_file (filename renamed_cv)
   \<and> upload_batch (process_candidate_file (sample_env JNull) ''alice'') (exn_str (sample_env JNull))
        [renamed_cv, good_file] sample_db [] []
     = upload_batch (process_candidate_file (sample_env JNull) ''alice'') (exn_str (sample_env JNull))
        [good_file] sample_db [] [(filename renamed_cv, ''Duplicate file - same content already uploaded'')]
   \<and> has_upload (sample_env JNull) ''alice'' (content copy_job) (job_descriptions sample_db)
   \<and> upload_batch (process_jd_file (sample_env JNull) ''alice'') (exn_str (sample_env JNull))
        [copy_job, new_job_file] sample_db [] []
     = upload_batch (process_jd_file (sample_env JNull) ''alice'') (exn_str (sample_env JNull))
        [new_job_file] sample_db [] [(filename copy_job, ''Duplicate file - same content already uploaded'')]
   \<and> has_upload (sample_env JNull) ''alice'' (content good_file)
        (candidates (fst (process_candidate_file (sample_env JNull) ''alice'' good_file sample_db)))
   \<and> has_upload (sample_env JNull) ''alice'' (content new_job_file)
        (job_descriptions (fst (process_jd_file (sample_env JNull) ''alice'' new_job_file sample_db)))"
proof -
  let ?E = "sample_env JNull"
  have a: "has_upload ?E ''alice'' (content renamed_cv) (candidates sample_db)"
    by (simp add: has_upload_def file_defs sample_defs)
  have b: "is_supported_file (filename renamed_cv)"
    by (simp add: candidate_upload_defs file_defs)
  have c: "has_upload ?E ''alice'' (content copy_job) (job_descriptions sample_db)"
    by (simp add: has_upload_def file_defs sample_defs)
  have d: "\<exists>rec. snd (process_candidate_file ?E ''alice'' good_file sample_db) = Created rec"
    by (simp add: candidate_upload_defs file_defs store_defs sample_defs Let_def)
  have e: "\<exists>rec. snd (process_jd_file ?E ''alice'' new_job_file sample_db) = Created rec"
    by (simp add: jd_upload_defs file_defs store_defs sample_defs scoring_defs Let_def)
  from d obtain r1 where r1: "process_candidate_file ?E ''alice'' good_file sample_db
      = (fst (process_candidate_file ?E ''alice'' good_file sample_db), Created r1)"
    by (metis prod.collapse)
  from e obtain r2 where r2: "process_jd_file ?E ''alice'' new_job_file sample_db
      = (fst (process_jd_file ?E ''alice'' new_job_file sample_db), Created r2)"
    by (metis prod.collapse)
  note t = duplicate_content_is_skipped[where E = ?E and uid = "''alice''" and st = sample_db
      and str = "exn_str ?E" and created = "[]" and skipped = "[]"]
  have s1: "upload_batch (process_candidate_file ?E ''alice'') (exn_str ?E)
        [renamed_cv, good_file] sample_db [] []
     = upload_batch (process_candidate_file ?E ''alice'') (exn_str ?E)
        [good_file] sample_db [] [(filename renamed_cv, ''Duplicate file - same content already uploaded'')]"
    by (rule mp[OF t[where upload = renamed_cv and uploads = "[good_file]",
            THEN conjunct1, unfolded append_Nil] conjI[OF a b]])
  have s2: "upload_batch (process_jd_file ?E ''alice'') (exn_str ?E)
        [copy_job, new_job_file] sample_db [] []
     = upload_batch (process_jd_file ?E ''alice'') (exn_str ?E)
        [new_job_file] sample_db [] [(filename copy_job, ''Duplicate file - same content already uploaded'')]"
    by (rule mp[OF t[where upload = copy_job and uploads = "[new_job_file]",
            THEN conjunct2, THEN conjunct1, unfolded append_Nil] c])
  have s3: "has_upload ?E ''alice'' (content good_file)
        (candidates (fst (process_candidate_file ?E ''alice'' good_file sample_db)))"
    by (rule mp[OF t[THEN conjunct2, THEN conjunct2, THEN conjunct1] r1])
  have s4: "has_upload ?E ''alice'' (content new_job_file)
        (job_descriptions (fst (process_jd_file ?E ''alice'' new_job_file sample_db)))"
    by (rule mp[OF t[THEN conjunct2, THEN conjunct2, THEN conjunct2] r2])
  from a b c s1 s2 s3 s4 show ?thesis by blast
qed

subsection \<open>Files that cannot be processed\<close>

text \<open>
  C7 as stated fails: an unsupported file ends the request. The batch holds
  \<open>notes.exe\<close> and then a file that is accepted when uploaded alone; the answer is the
  500 error, nothing is created and nothing is stored.
\<close>

theorem unsupported_file_counterexample:
  "upload_candidates (sample_env JNull) [exe_file, good_file] ''alice'' sample_db
     = (sample_db, [],
        Inl (HTTPError 500 ''Error processing notes.exe: Unsupported file format: notes.exe. Supported: PDF, DOCX, TXT, JPG, PNG''))
   \<and> map_sum id (map (field ''resume_filename''))
        (snd (snd (upload_candidates (sample_env JNull) [good_file] ''alice'' sample_db)))
     = Inr [Some (JStr ''good.txt'')]"
  by (simp add: candidate_upload_defs file_defs store_defs sample_defs scoring_defs Let_def)

text \<open>
  C7, amended. When the processing of a batch reaches a file of an unsupported type (in
  a job-description upload: a file whose content is not already stored for the caller and
  whose name ends neither in \<open>.pdf\<close> nor in \<open>.docx\<close>), the request ends with a 500 error
  that names the file: the remaining files are not processed and no list of records is
  returned; the store is as the earlier files of the batch left it.
\<close>

theorem unsupported_file_aborts_batch:
  "(\<not> is_supported_file (filename upload) \<longrightarrow>
      upload_batch (process_candidate_file E uid) (exn_str E) (upload # uploads) st created skipped
        = (st, skipped,
           Inl (HTTPError 500 (''Error processing '' @ filename upload @ '': ''
                  @ exn_str E (HTTPException 400 (''Unsupported file format: '' @ filename upload
                       @ ''. Supported: PDF, DOCX, TXT, JPG, PNG''))))))
   \<and> (find_one [(''uid'', Eq (JStr uid)),
                 (''file_hash'', Eq (JStr (sha256_hexdigest E (content upload))))]
          (job_descriptions st) = None
        \<and> \<not> endswith (filename upload) ''.pdf'' \<and> \<not> endswith (filename upload) ''.docx'' \<longrightarrow>
      upload_batch (process_jd_file E uid) (exn_str E) (upload # uploads) st created skipped
        = (st, skipped,
           Inl (HTTPError 500 (''Error processing '' @ filename upload @ '': ''
                  @ exn_str E (HTTPException 400 ''Unsupported file format. Use PDF or DOCX'')))))"
  by (simp add: candidate_unsupported jd_unsupported)

theorem unsupported_file_aborts_batch_witness:
  "\<not> is_supported_file (filename exe_file)
   \<and> upload_batch (process_candidate_file (sample_env JNull) ''alice'') (exn_str (sample_env JNull))
        [exe_file, good_file] sample_db [] []
     = (sample_db, [],
        Inl (HTTPError 500 (''Error processing '' @ filename exe_file @ '': ''
               @ exn_str (sample_env JNull) (HTTPException 400 (''Unsupported file format: ''
                    @ filename exe_file @ ''. Supported: PDF, DOCX, TXT, JPG, PNG'')))))
   \<and> \<not> endswith (filename text_job) ''.pdf'' \<and> \<not> endswith (filename text_job) ''.docx''
   \<and> upload_batch (process_jd_file (sample_env JNull) ''alice'') (exn_str (sample_env JNull))
        [text_job, new_job_file] sample_db [] []
     = (sample_db, [],
        Inl (HTTPError 500 (''Error processing '' @ filename text_job @ '': ''
               @ exn_str (sample_env JNull)
                   (HTTPException 400 ''Unsupported file format. Use PDF or DOCX''))))"
proof -
  let ?E = "sample_env JNull"
  have a: "\<not> is_supported_file (filename exe_file)"
    by (simp add: candidate_upload_defs file_defs)
  have b: "find_one [(''uid'', Eq (JStr ''alice'')),
                     (''file_hash'', Eq (JStr (sha256_hexdigest ?E (content text_job))))]
             (job_descriptions sample_db) = None
           \<and> \<not> endswith (filename text_job) ''.pdf'' \<and> \<not> endswith (filename text_job) ''.docx''"
    by (simp add: file_defs store_defs sample_defs endswith_def)
  note t = unsupported_file_aborts_batch[where E = ?E and uid = "''alice''" and st = sample_db
      and created = "[]" and skipped = "[]"]
  have s1: "upload_batch (process_candidate_file ?E ''alice'') (exn_str ?E)
        [exe_file, good_file] sample_db [] []
     = (sample_db, [],
        Inl (HTTPError 500 (''Error processing '' @ filename exe_file @ '': ''
               @ exn_str ?E (HTTPException 400 (''Unsupported file format: ''
                    @ filename exe_file @ ''. Supported: PDF, DOCX, TXT, JPG, PNG'')))))"
    by (rule mp[OF t[where upload = exe_file and uploads = "[good_file]", THEN conjunct1] a])
  have s2: "upload_batch (process_jd_file ?E ''alice'') (exn_str ?E)
        [text_job, new_job_file] sample_db [] []
     = (sample_db, [],
        Inl (HTTPError 500 (''Error processing '' @ filename text_job @ '': ''
               @ exn_str ?E (HTTPException 400 ''Unsupported file format. Use PDF or DOCX''))))"
    by (rule mp[OF t[where upload = text_job and uploads = "[new_job_file]", THEN conjunct2] b])
  from a b s1 s2 show ?thesis by blast
qed

text \<open>
  C6 as stated fails: a file with too little text ends the request. The 20 characters
  read from \<open>short.txt\<close> are fewer than 50; the file after it is accepted when uploaded
  alone; the answer is the 500 error, nothing is skipped and nothing is returned.
\<close>

theorem insufficient_text_counterexample:
  "upload_candidates (sample_env JNull) [short_file, good_file] ''alice'' sample_db
     = (sample_db, [],
        Inl (HTTPError 500 ''Error processing short.txt: Could not extract sufficient text from short.txt. Please ensure the file is readable.''))
   \<and> extract_text_from_upload (sample_env JNull) short_file = Inr ''abcdefghijklmnopqrst''
   \<and> map_sum id length
        (snd (snd (upload_candidates (sample_env JNull) [good_file] ''alice'' sample_db)))
     = Inr 1"
  by (simp add: candidate_upload_defs file_defs store_defs sample_defs scoring_defs Let_def)

text \<open>
  C6, amended. In a candidate upload, when the processing of a batch reaches a file of a
  supported type, not a duplicate by content, whose extracted text is empty or has fewer
  than 50 characters once the white space at its ends is stripped, the request ends with
  a 500 error that names the file: the file is not skipped, the remaining files are not
  processed and no records are returned; the store is as the earlier files of the batch
  left it.
\<close>

theorem insufficient_text_aborts_batch:
  "is_supported_file (filename upload) \<Longrightarrow>
   find_one [(''uid'', Eq (JStr uid)), (''file_hash'', Eq (JStr (sha256_hexdigest E (content upload))))]
      (candidates st) = None \<Longrightarrow>
   extract_text_from_upload E upload = Inr resume_text \<Longrightarrow>
   resume_text = [] \<or> length (strip resume_text) < 50 \<Longrightarrow>
     upload_batch (process_candidate_file E uid) (exn_str E) (upload # uploads) st created skipped
       = (st, skipped,
          Inl (HTTPError 500 (''Error processing '' @ filename upload @ '': ''
                 @ exn_str E (HTTPException 400 (''Could not extract sufficient text from ''
                      @ filename upload @ ''. Please ensure the file is readable.'')))))"
  by (simp add: candidate_insufficient)

theorem insufficient_text_aborts_batch_witness:
  "is_supported_file (filename short_file)
   \<and> extract_text_from_upload (sample_env JNull) short_file = Inr ''abcdefghijklmnopqrst''
   \<and> length (strip ''abcdefghijklmnopqrst'') < 50
   \<and> upload_batch (process_candidate_file (sample_env JNull) ''alice'') (exn_str (sample_env JNull))
        [short_file, good_file] sample_db [] []
     = (sample_db, [],
        Inl (HTTPError 500 (''Error processing '' @ filename short_file @ '': ''
               @ exn_str (sample_env JNull) (HTTPException 400
                   (''Could not extract sufficient text from '' @ filename short_file
                      @ ''. Please ensure the file is readable.'')))))"
proof -
  let ?E = "sample_env JNull"
  have a: "is_supported_file (filename short_file)"
    by (simp add: candidate_upload_defs file_defs)
  have b: "find_one [(''uid'', Eq (JStr ''alice'')),
                     (''file_hash'', Eq (JStr (sha256_hexdigest ?E (content short_file))))]
             (candidates sample_db) = None"
    by (simp add: file_defs store_defs sample_defs)
  have c: "extract_text_from_upload ?E short_file = Inr ''abcdefghijklmnopqrst''"
    by (simp add: candidate_upload_defs file_defs sample_defs)
  have d: "length (strip ''abcdefghijklmnopqrst'') < 50"
    by (simp add: strip_def isspace_def)
  then have d': "''abcdefghijklmnopqrst'' = [] \<or> length (strip ''abcdefghijklmnopqrst'') < 50"
    by (rule disjI2)
  from a c d
    insufficient_text_aborts_batch[where E = ?E and uid = "''alice''" and st = sample_db
      and created = "[]" and skipped = "[]" and upload = short_file and uploads = "[good_file]",
      OF a b c d']
  show ?thesis by blast
qed

subsection \<open>What an upload answers\<close>

text \<open>
  C8 as stated fails: the answer of an upload holds the created records only. A
  job-description batch whose one file is skipped as a duplicate answers with the empty
  list, as the empty batch does; the skipped file and its reason are on the list that is
  printed.
\<close>

theorem skipped_files_not_in_response_counterexample:
  "upload_job_descriptions (sample_env JNull) [copy_job] ''alice'' sample_db
     = (sample_db, [(''copy.bin'', ''Duplicate file - same content already uploaded'')], Inr [])
   \<and> snd (snd (upload_job_descriptions (sample_env JNull) [] ''alice'' sample_db)) = Inr []"
  by (simp add: jd_upload_defs file_defs store_defs sample_defs Let_def)

text \<open>
  C8, amended. For every job-description batch upload that completes, the response
  returned to the caller is the list of the created records alone: one record, with the
  caller's \<open>uid\<close> and the name of its file, for each file that was not skipped. The
  skipped files are collected, each with its reason, on the list \<open>skipped_files\<close>, one
  entry per skipped file, and that list is only written to the server's log.
\<close>

theorem jd_upload_response_lists_created_records:
  "upload_job_descriptions E uploads uid st = (st', skips, Inr rs) \<Longrightarrow>
     length rs + length skips = length uploads
     \<and> list_all (\<lambda>r. list_ex (\<lambda>f. r ''uid'' = Some (JStr uid)
                                  \<and> r ''jd_filename'' = Some (JStr (filename f))) uploads) rs
     \<and> list_all (\<lambda>s. list_ex (\<lambda>f. fst s = filename f) uploads) skips"
  using jd_response[of E uploads uid st st' skips rs] by blast

theorem jd_upload_response_lists_created_records_witness:
  "fst (snd (upload_job_descriptions (sample_env JNull) [copy_job, new_job_file] ''alice'' sample_db))
     = [(''copy.bin'', ''Duplicate file - same content already uploaded'')]
   \<and> snd (snd (upload_job_descriptions (sample_env JNull) [copy_job, new_job_file] ''alice'' sample_db))
     = Inr [jd_data ''id-i'' ''alice'' ''file-'' (map char_of [7 :: nat]) ''new.pdf'' 1
              (jd_fallback (sample_env JNull) (LibraryError ''unavailable''))]
   \<and> length [jd_data ''id-i'' ''alice'' ''file-'' (map char_of [7 :: nat]) ''new.pdf'' 1
              (jd_fallback (sample_env JNull) (LibraryError ''unavailable''))]
       + length [(''copy.bin'', ''Duplicate file - same content already uploaded'')]
     = length [copy_job, new_job_file]
   \<and> list_all (\<lambda>r. list_ex (\<lambda>f. r ''uid'' = Some (JStr ''alice'')
                                \<and> r ''jd_filename'' = Some (JStr (filename f)))
                  [copy_job, new_job_file])
        [jd_data ''id-i'' ''alice'' ''file-'' (map char_of [7 :: nat]) ''new.pdf'' 1
           (jd_fallback (sample_env JNull) (LibraryError ''unavailable''))]"
proof -
  let ?E = "sample_env JNull"
  let ?run = "upload_job_descriptions ?E [copy_job, new_job_file] ''alice'' sample_db"
  let ?r = "jd_data ''id-i'' ''alice'' ''file-'' (map char_of [7 :: nat]) ''new.pdf'' 1
              (jd_fallback ?E (LibraryError ''unavailable''))"
  have a: "fst (snd ?run) = [(''copy.bin'', ''Duplicate file - same content already uploaded'')]"
    by (simp add: jd_upload_defs file_defs store_defs sample_defs scoring_defs Let_def)
  have b: "snd (snd ?run) = Inr [?r]"
    by (simp add: jd_upload_defs file_defs store_defs sample_defs scoring_defs Let_def)
  from a b have run: "?run = (fst ?run,
      [(''copy.bin'', ''Duplicate file - same content already uploaded'')], Inr [?r])"
    by (metis prod.collapse)
  from jd_upload_response_lists_created_records[OF run] a b show ?thesis
    by blast
qed

subsection \<open>Parse failures\<close>

lemma candidate_fallback_fields:
  "candidate_data cid uid fid h name now (resume_fallback E e) ''name'' = Some (JStr ''Unknown'')
   \<and> candidate_data cid uid fid h name now (resume_fallback E e) ''professional_summary''
       = Some (JStr (''Error parsing resume: '' @ exn_str E e))"
  by (simp add: candidate_data_def resume_fallback_def map_add_def)

lemma jd_fallback_fields:
  "jd_data jid uid fid h name now (jd_fallback E e) ''job_title'' = Some (JStr ''Untitled Position'')
   \<and> jd_data jid uid fid h name now (jd_fallback E e) ''description''
       = Some (JStr (''Error parsing JD: '' @ exn_str E e))"
  by (simp add: jd_data_def jd_fallback_def map_add_def)

lemma candidate_parse_failure_created:
  assumes "is_supported_file (filename upload)"
    and "find_one [(''uid'', Eq (JStr uid)),
                   (''file_hash'', Eq (JStr (sha256_hexdigest E (content upload))))]
           (candidates st) = None"
    and "extract_text_from_upload E upload = Inr t" and "t \<noteq> []" and "\<not> length (strip t) < 50"
    and "parse_resume_try E t = Inl e"
  shows "\<exists>st' c. process_candidate_file E uid upload st = (st', Created c)
           \<and> c ''name'' = Some (JStr ''Unknown'')
           \<and> c ''professional_summary'' = Some (JStr (''Error parsing resume: '' @ exn_str E e))"
  using candidate_parse_failure[OF assms] candidate_fallback_fields by blast

lemma jd_parse_failure_outcome:
  assumes "find_one [(''uid'', Eq (JStr uid)),
                     (''file_hash'', Eq (JStr (sha256_hexdigest E (content upload))))]
             (job_descriptions st) = None"
    and "jd_extract_text E upload = Inr t"
    and "parse_job_description_try E t = Inl e"
  shows "\<exists>st' out. process_jd_file E uid upload st = (st', out)
           \<and> (case out of
                 Created c \<Rightarrow> c ''job_title'' = Some (JStr ''Untitled Position'')
                     \<and> c ''description'' = Some (JStr (''Error parsing JD: '' @ exn_str E e))
               | Skipped reason \<Rightarrow> False
               | Failed e' \<Rightarrow> \<exists>jd_id st2. fan_out E jd_id t uid st2 = (st', Some e'))"
proof -
  let ?stored = "jd_data (uuid4 E (Suc (clock st))) uid (object_id E (clock st))
              (sha256_hexdigest E (content upload)) (filename upload) (Suc (clock st)) (jd_fallback E e)"
  let ?st2 = "st\<lparr>gridfs := (gridfs st)(object_id E (clock st) \<mapsto> content upload),
                   job_descriptions := insert_one ?stored (job_descriptions st),
                   clock := Suc (Suc (clock st))\<rparr>"
  obtain st3 r where f: "fan_out E (uuid4 E (Suc (clock st))) t uid ?st2 = (st3, r)"
    by (cases "fan_out E (uuid4 E (Suc (clock st))) t uid ?st2")
  show ?thesis
  proof (cases r)
    case None
    with f jd_parse_failure[OF assms] have "process_jd_file E uid upload st = (st3, Created ?stored)"
      by (simp add: Let_def)
    then show ?thesis using jd_fallback_fields by fastforce
  next
    case (Some e')
    with f jd_parse_failure[OF assms] have "process_jd_file E uid upload st = (st3, Failed e')"
      by (simp add: Let_def)
    then show ?thesis using f Some by fastforce
  qed
qed

text \<open>
  C9. For every input text the parser returns a record: a resume parse always has the
  twelve resume keys and a job-description parse the ten job keys. When anything inside
  the parser raises (the call to the model, \<open>json.loads\<close>, the cleaning), the result is
  the fallback record: the name \<open>Unknown\<close> (the title \<open>Untitled Position\<close>), no e-mail,
  and the error note in the summary (the description). An upload is not aborted by such
  a failure: a candidate file whose parse fell back is stored and created like any other,
  and a job file whose parse fell back is stored, and created unless the automatic
  matching that follows raises.
\<close>

theorem parser_never_raises:
  "dom (parse_resume E input) = resume_keys
   \<and> dom (parse_job_description E input) = jd_keys
   \<and> (parse_resume_try E input = Inl e \<longrightarrow>
        parse_resume E input = resume_fallback E e
        \<and> parse_resume E input ''name'' = Some (JStr ''Unknown'')
        \<and> parse_resume E input ''email'' = Some JNull
        \<and> parse_resume E input ''professional_summary''
            = Some (JStr (''Error parsing resume: '' @ exn_str E e)))
   \<and> (parse_job_description_try E input = Inl e \<longrightarrow>
        parse_job_description E input = jd_fallback E e
        \<and> parse_job_description E input ''job_title'' = Some (JStr ''Untitled Position'')
        \<and> parse_job_description E input ''company'' = Some (JStr [])
        \<and> parse_job_description E input ''description''
            = Some (JStr (''Error parsing JD: '' @ exn_str E e)))
   \<and> (is_supported_file (filename upload)
        \<and> find_one [(''uid'', Eq (JStr uid)),
                     (''file_hash'', Eq (JStr (sha256_hexdigest E (content upload))))]
             (candidates st) = None
        \<and> extract_text_from_upload E upload = Inr input \<and> input \<noteq> [] \<and> \<not> length (strip input) < 50
        \<and> parse_resume_try E input = Inl e \<longrightarrow>
        (\<exists>st' c. process_candidate_file E uid upload st = (st', Created c)
           \<and> c ''name'' = Some (JStr ''Unknown'')
           \<and> c ''professional_summary'' = Some (JStr (''Error parsing resume: '' @ exn_str E e))))
   \<and> (find_one [(''uid'', Eq (JStr uid)),
                 (''file_hash'', Eq (JStr (sha256_hexdigest E (content upload))))]
           (job_descriptions st) = None
        \<and> jd_extract_text E upload = Inr input
        \<and> parse_job_description_try E input = Inl e \<longrightarrow>
        (\<exists>st' out. process_jd_file E uid upload st = (st', out)
           \<and> (case out of
                 Created c \<Rightarrow> c ''job_title'' = Some (JStr ''Untitled Position'')
                     \<and> c ''description'' = Some (JStr (''Error parsing JD: '' @ exn_str E e))
               | Skipped reason \<Rightarrow> False
               | Failed e' \<Rightarrow> \<exists>jd_id st2. fan_out E jd_id input uid st2 = (st', Some e'))))"
proof (intro conjI impI)
  show "dom (parse_resume E input) = resume_keys" by (rule dom_parse_resume)
  show "dom (parse_job_description E input) = jd_keys" by (rule dom_parse_jd)
next
  assume f: "parse_resume_try E input = Inl e"
  then show p: "parse_resume E input = resume_fallback E e" by (simp add: parse_resume_def)
  show "parse_resume E input ''name'' = Some (JStr ''Unknown'')"
    and "parse_resume E input ''email'' = Some JNull"
    and "parse_resume E input ''professional_summary''
           = Some (JStr (''Error parsing resume: '' @ exn_str E e))"
    unfolding p by (simp_all add: resume_fallback_def)
next
  assume f: "parse_job_description_try E input = Inl e"
  then show p: "parse_job_description E input = jd_fallback E e"
    by (simp add: parse_job_description_def)
  show "parse_job_description E input ''job_title'' = Some (JStr ''Untitled Position'')"
    and "parse_job_description E input ''company'' = Some (JStr [])"
    and "parse_job_description E input ''description''
           = Some (JStr (''Error parsing JD: '' @ exn_str E e))"
    unfolding p by (simp_all add: jd_fallback_def)
next
  assume "is_supported_file (filename upload)
        \<and> find_one [(''uid'', Eq (JStr uid)),
                     (''file_hash'', Eq (JStr (sha256_hexdigest E (content upload))))]
             (candidates st) = None
        \<and> extract_text_from_upload E upload = Inr input \<and> input \<noteq> [] \<and> \<not> length (strip input) < 50
        \<and> parse_resume_try E input = Inl e"
  then show "\<exists>st' c. process_candidate_file E uid upload st = (st', Created c)
           \<and> c ''name'' = Some (JStr ''Unknown'')
           \<and> c ''professional_summary'' = Some (JStr (''Error parsing resume: '' @ exn_str E e))"
    using candidate_parse_failure_created by blast
next
  assume "find_one [(''uid'', Eq (JStr uid)),
                 (''file_hash'', Eq (JStr (sha256_hexdigest E (content upload))))]
           (job_descriptions st) = None
        \<and> jd_extract_text E upload = Inr input
        \<and> parse_job_description_try E input = Inl e"
  then show "\<exists>st' out. process_jd_file E uid upload st = (st', out)
           \<and> (case out of
                 Created c \<Rightarrow> c ''job_title'' = Some (JStr ''Untitled Position'')
                     \<and> c ''description'' = Some (JStr (''Error parsing JD: '' @ exn_str E e))
               | Skipped reason \<Rightarrow> False
               | Failed e' \<Rightarrow> \<exists>jd_id st2. fan_out E jd_id input uid st2 = (st', Some e'))"
    using jd_parse_failure_outcome by blast
qed

theorem parser_never_raises_witness:
  "parse_resume_try (sample_env JNull) (decode_utf8_ignore (sample_env JNull) (content good_file))
     = Inl (LibraryError ''unavailable'')
   \<and> parse_resume (sample_env JNull) (decode_utf8_ignore (sample_env JNull) (content good_file)) ''name''
     = Some (JStr ''Unknown'')
   \<and> parse_resume (sample_env JNull) (decode_utf8_ignore (sample_env JNull) (content good_file))
        ''professional_summary''
     = Some (JStr (''Error parsing resume: '' @ exn_str (sample_env JNull) (LibraryError ''unavailable'')))
   \<and> (\<exists>st' c. process_candidate_file (sample_env JNull) ''alice'' good_file sample_db = (st', Created c)
          \<and> c ''name'' = Some (JStr ''Unknown'')
          \<and> c ''professional_summary''
              = Some (JStr (''Error parsing resume: ''
                   @ exn_str (sample_env JNull) (LibraryError ''unavailable''))))
   \<and> parse_job_description_try (sample_env JNull) ''abcdefghijklmnopqrst''
     = Inl (LibraryError ''unavailable'')
   \<and> parse_job_description (sample_env JNull) ''abcdefghijklmnopqrst'' ''job_title''
     = Some (JStr ''Untitled Position'')
   \<and> (\<exists>st' out. process_jd_file (sample_env JNull) ''alice'' new_job_file sample_db = (st', out)
          \<and> (case out of
                Created c \<Rightarrow> c ''job_title'' = Some (JStr ''Untitled Position'')
                    \<and> c ''description''
                        = Some (JStr (''Error parsing JD: ''
                             @ exn_str (sample_env JNull) (LibraryError ''unavailable'')))
              | Skipped reason \<Rightarrow> False
              | Failed e' \<Rightarrow>
                  \<exists>jd_id st2. fan_out (sample_env JNull) jd_id ''abcdefghijklmnopqrst'' ''alice'' st2
                                = (st', Some e')))"
proof -
  let ?E = "sample_env JNull"
  let ?T = "decode_utf8_ignore ?E (content good_file)"
  let ?e = "LibraryError ''unavailable''"
  have a1: "parse_resume_try ?E ?T = Inl ?e"
    by (simp add: parse_resume_try_def bind_exn_def sample_env_def)
  have a2: "is_supported_file (filename good_file)"
    by (simp add: candidate_upload_defs file_defs)
  have a3: "find_one [(''uid'', Eq (JStr ''alice'')),
                      (''file_hash'', Eq (JStr (sha256_hexdigest ?E (content good_file))))]
              (candidates sample_db) = None"
    by (simp add: file_defs store_defs sample_defs)
  have a4: "extract_text_from_upload ?E good_file = Inr ?T"
    by (simp add: candidate_upload_defs file_defs sample_defs)
  have a5: "?T \<noteq> [] \<and> \<not> length (strip ?T) < 50"
    by (simp add: file_defs sample_defs strip_def isspace_def)
  have b1: "parse_job_description_try ?E ''abcdefghijklmnopqrst'' = Inl ?e"
    by (simp add: parse_job_description_try_def bind_exn_def sample_env_def)
  have b2: "find_one [(''uid'', Eq (JStr ''alice'')),
                      (''file_hash'', Eq (JStr (sha256_hexdigest ?E (content new_job_file))))]
              (job_descriptions sample_db) = None"
    by (simp add: store_defs sample_defs)
  have b3: "jd_extract_text ?E new_job_file = Inr ''abcdefghijklmnopqrst''"
    by (simp add: jd_extract_text_def endswith_def sample_defs)
  note t1 = parser_never_raises[where E = ?E and input = ?T and e = ?e and upload = good_file
      and uid = "''alice''" and st = sample_db]
  note t2 = parser_never_raises[where E = ?E and input = "''abcdefghijklmnopqrst''" and e = ?e
      and upload = new_job_file and uid = "''alice''" and st = sample_db]
  from t1 a1 have c1: "parse_resume ?E ?T ''name'' = Some (JStr ''Unknown'')
      \<and> parse_resume ?E ?T ''professional_summary''
          = Some (JStr (''Error parsing resume: '' @ exn_str ?E ?e))"
    by blast
  from t1 a1 a2 a3 a4 a5
  have c2: "\<exists>st' c. process_candidate_file ?E ''alice'' good_file sample_db = (st', Created c)
          \<and> c ''name'' = Some (JStr ''Unknown'')
          \<and> c ''professional_summary'' = Some (JStr (''Error parsing resume: '' @ exn_str ?E ?e))"
    by blast
  from t2 b1 have c3: "parse_job_description ?E ''abcdefghijklmnopqrst'' ''job_title''
      = Some (JStr ''Untitled Position'')"
    by blast
  from t2 b1 b2 b3
  have c4: "\<exists>st' out. process_jd_file ?E ''alice'' new_job_file sample_db = (st', out)
          \<and> (case out of
                Created c \<Rightarrow> c ''job_title'' = Some (JStr ''Untitled Position'')
                    \<and> c ''description'' = Some (JStr (''Error parsing JD: '' @ exn_str ?E ?e))
              | Skipped reason \<Rightarrow> False
              | Failed e' \<Rightarrow>
                  \<exists>jd_id st2. fan_out ?E jd_id ''abcdefghijklmnopqrst'' ''alice'' st2 = (st', Some e'))"
    by blast
  from a1 b1 c1 c2 c3 c4 show ?thesis by blast
qed

end
